theory Spec2Isabelle
  imports Main "HOL-Library.AList"
begin

section \<open>Wallpaper SaaS backend: authorization and entitlement gating\<close>

text \<open>
  A shallow embedding of \<^verbatim>\<open>main.py\<close>. Every request handler is a function of its
  arguments, the database before the call and the clock readings it takes; it returns
  the outcome (an exception or the response) together with the database after the call.
  The external libraries (python-jose, passlib) are parameters of the model.
\<close>

subsection \<open>Values, documents, exceptions\<close>

text \<open>Time stamps are UTC, counted in whole seconds since the epoch.\<close>

type_synonym timestamp = int

text \<open>
  A \<^verbatim>\<open>bson.ObjectId\<close>, kept as the lower-case hexadecimal text of its bytes
  (what \<^verbatim>\<open>str(oid)\<close> prints).
\<close>

datatype ObjectId = OID string

datatype val =
    VNone
  | VBool bool
  | VInt int
  | VStr string
  | VDatetime timestamp
  | VObjectId ObjectId
  | VList "val list"

text \<open>
  A Python dict with string keys, in insertion order: assigning to a present key keeps its
  place (\<open>AList.update\<close>), \<^verbatim>\<open>pop\<close> removes it (\<open>AList.delete\<close>).
\<close>

type_synonym doc = "(string \<times> val) list"

datatype exn =
    HTTPException nat string
  | JWTError string
  | InvalidId
  | TypeError
  | KeyError string
  | DuplicateKeyError
  | WriteError

text \<open>\<^verbatim>\<open>d.get(k)\<close> and \<^verbatim>\<open>d.get(k, default)\<close>: a missing key reads as the default.\<close>

definition dict_get_default :: "doc \<Rightarrow> string \<Rightarrow> val \<Rightarrow> val" where
  "dict_get_default d k dflt = (case map_of d k of None \<Rightarrow> dflt | Some v \<Rightarrow> v)"

definition dict_get :: "doc \<Rightarrow> string \<Rightarrow> val" where
  "dict_get d k = dict_get_default d k VNone"

text \<open>\<^verbatim>\<open>d[k]\<close> raises \<^verbatim>\<open>KeyError\<close> on a missing key.\<close>

definition dict_getitem :: "doc \<Rightarrow> string \<Rightarrow> exn + val" where
  "dict_getitem d k = (case map_of d k of None \<Rightarrow> Inl (KeyError k) | Some v \<Rightarrow> Inr v)"

text \<open>Python truthiness, as \<^verbatim>\<open>bool(v)\<close>, \<^verbatim>\<open>if v\<close> and \<^verbatim>\<open>not v\<close> use it.\<close>

fun truthy :: "val \<Rightarrow> bool" where
  "truthy VNone = False"
| "truthy (VBool b) = b"
| "truthy (VInt n) = (n \<noteq> 0)"
| "truthy (VStr s) = (s \<noteq> [])"
| "truthy (VDatetime t) = True"
| "truthy (VObjectId i) = True"
| "truthy (VList xs) = (xs \<noteq> [])"

subsection \<open>Strings\<close>

text \<open>
  \<^verbatim>\<open>str.lower()\<close> on the characters that matter for the comparison with
  \<^verbatim>\<open>"bearer"\<close>: the ASCII capitals. No other character lowers to an ASCII letter
  of that word.
\<close>

definition lower_char :: "char \<Rightarrow> char" where
  "lower_char c =
     (case map_of (zip ''ABCDEFGHIJKLMNOPQRSTUVWXYZ'' ''abcdefghijklmnopqrstuvwxyz'') c of
        None \<Rightarrow> c | Some l \<Rightarrow> l)"

definition lower :: "string \<Rightarrow> string" where
  "lower s = map lower_char s"

text \<open>\<^verbatim>\<open>s.partition(" ")\<close>: split at the first space.\<close>

definition partition_space :: "string \<Rightarrow> string \<times> string \<times> string" where
  "partition_space s =
     (case dropWhile (\<lambda>c. c \<noteq> CHR '' '') s of
        [] \<Rightarrow> (s, [], [])
      | _ # rest \<Rightarrow> (takeWhile (\<lambda>c. c \<noteq> CHR '' '') s, '' '', rest))"

subsection \<open>ObjectId\<close>

definition is_hex :: "char \<Rightarrow> bool" where
  "is_hex c \<longleftrightarrow> c \<in> set ''0123456789abcdefABCDEF''"

definition is_space :: "char \<Rightarrow> bool" where
  "is_space c \<longleftrightarrow> c \<in> set [CHR '' '', CHR 0x09, CHR 0x0A, CHR 0x0B, CHR 0x0C, CHR 0x0D]"

text \<open>
  \<^verbatim>\<open>bytes.fromhex\<close>: pairs of hexadecimal digits, ASCII white space allowed between
  the pairs; \<open>None\<close> is its \<^verbatim>\<open>ValueError\<close>. The bytes are kept as lower-case hex text.
\<close>

fun fromhex :: "string \<Rightarrow> string option" where
  "fromhex [] = Some []"
| "fromhex [c] = (if is_space c then Some [] else None)"
| "fromhex (c # d # r) =
     (if is_space c then fromhex (d # r)
      else if is_hex c \<and> is_hex d
        then map_option (\<lambda>h. lower_char c # lower_char d # h) (fromhex r)
        else None)"

text \<open>
  \<^verbatim>\<open>ObjectId(x)\<close>: a string must have 24 characters that \<^verbatim>\<open>bytes.fromhex\<close>
  accepts, else \<^verbatim>\<open>InvalidId\<close>; an ObjectId is copied; any other value is a
  \<^verbatim>\<open>TypeError\<close>.
\<close>

fun ObjectId_new :: "val \<Rightarrow> exn + ObjectId" where
  "ObjectId_new (VStr s) =
     (if length s = 24
      then (case fromhex s of None \<Rightarrow> Inl InvalidId | Some h \<Rightarrow> Inr (OID h))
      else Inl InvalidId)"
| "ObjectId_new (VObjectId i) = Inr i"
| "ObjectId_new _ = Inl TypeError"

fun str_ObjectId :: "ObjectId \<Rightarrow> string" where
  "str_ObjectId (OID h) = h"

text \<open>The ids the driver generates: twelve bytes, so 24 lower-case hex digits.\<close>

definition is_lower_hex :: "char \<Rightarrow> bool" where
  "is_lower_hex c \<longleftrightarrow> c \<in> set ''0123456789abcdef''"

fun valid_oid :: "ObjectId \<Rightarrow> bool" where
  "valid_oid (OID h) \<longleftrightarrow> length h = 24 \<and> list_all is_lower_hex h"

subsection \<open>The document store\<close>

text \<open>
  A collection is the list of its documents in insertion order, each stored under its
  \<^verbatim>\<open>_id\<close>. The store is taken as connected and as keeping values as they are written.
\<close>

type_synonym collection = "(ObjectId \<times> doc) list"

record db =
  db_user :: collection
  db_wallpaper :: collection

text \<open>A stored document as the driver hands it out: \<^verbatim>\<open>_id\<close> first.\<close>

fun as_doc :: "ObjectId \<times> doc \<Rightarrow> doc" where
  "as_doc (i, d) = (''_id'', VObjectId i) # d"

text \<open>
  An equality condition \<^verbatim>\<open>{k: v}\<close> of a query: the field equals the value, or is an
  array holding it; a missing field matches \<^verbatim>\<open>None\<close> only.
\<close>

definition match_field :: "doc \<Rightarrow> string \<times> val \<Rightarrow> bool" where
  "match_field d c =
     (case map_of d (fst c) of
        None \<Rightarrow> snd c = VNone
      | Some x \<Rightarrow> x = snd c \<or> (case x of VList xs \<Rightarrow> snd c \<in> set xs | _ \<Rightarrow> False))"

definition matches :: "doc \<Rightarrow> ObjectId \<times> doc \<Rightarrow> bool" where
  "matches query e = list_all (match_field (as_doc e)) query"

definition find_one :: "collection \<Rightarrow> doc \<Rightarrow> doc option" where
  "find_one coll query = map_option as_doc (List.find (matches query) coll)"

text \<open>\<^verbatim>\<open>insert_one\<close>, with the fresh \<^verbatim>\<open>_id\<close> the driver generates as an argument.\<close>

definition insert_one :: "collection \<Rightarrow> ObjectId \<Rightarrow> doc \<Rightarrow> exn + collection" where
  "insert_one coll new_id d =
     (if new_id \<in> fst ` set coll then Inl DuplicateKeyError else Inr (coll @ [(new_id, d)]))"

text \<open>\<^verbatim>\<open>update_one\<close> changes the first document that matches, if there is one.\<close>

fun update_one :: "collection \<Rightarrow> doc \<Rightarrow> (doc \<Rightarrow> exn + doc) \<Rightarrow> exn + collection" where
  "update_one [] query f = Inr []"
| "update_one (e # es) query f =
     (if matches query e
      then (case f (snd e) of Inl x \<Rightarrow> Inl x | Inr d' \<Rightarrow> Inr ((fst e, d') # es))
      else (case update_one es query f of Inl x \<Rightarrow> Inl x | Inr es' \<Rightarrow> Inr (e # es')))"

text \<open>The update operators \<^verbatim>\<open>$set\<close> and \<^verbatim>\<open>$inc\<close>.\<close>

definition op_set :: "doc \<Rightarrow> doc \<Rightarrow> exn + doc" where
  "op_set changes d = Inr (foldl (\<lambda>acc kv. AList.update (fst kv) (snd kv) acc) d changes)"

definition op_inc :: "string \<Rightarrow> int \<Rightarrow> doc \<Rightarrow> exn + doc" where
  "op_inc k n d =
     (case map_of d k of
        None \<Rightarrow> Inr (AList.update k (VInt n) d)
      | Some (VInt m) \<Rightarrow> Inr (AList.update k (VInt (m + n)) d)
      | Some _ \<Rightarrow> Inl WriteError)"

subsection \<open>Configuration and external libraries\<close>

text \<open>
  The process environment and the libraries the handlers call:
  \<^item> \<open>JWT_SECRET\<close> is \<^verbatim>\<open>os.getenv("JWT_SECRET")\<close>;
  \<^item> \<open>jwt_encode claims key algorithm\<close> is \<^verbatim>\<open>jose.jwt.encode\<close>;
  \<^item> \<open>jwt_decode token key algorithms now\<close> is \<^verbatim>\<open>jose.jwt.decode\<close>, which reads
    the clock; it rejects a token by raising \<^verbatim>\<open>JWTError\<close> (or a subclass);
  \<^item> \<open>pwd_hash\<close> is \<^verbatim>\<open>pwd_context.hash\<close>;
  \<^item> \<open>py_str\<close> is \<^verbatim>\<open>str(v)\<close> for the values that are neither a string nor \<^verbatim>\<open>None\<close>.
\<close>

record env =
  JWT_SECRET :: "string option"
  jwt_encode :: "doc \<Rightarrow> string \<Rightarrow> string \<Rightarrow> string"
  jwt_decode :: "string \<Rightarrow> string \<Rightarrow> string list \<Rightarrow> timestamp \<Rightarrow> exn + doc"
  pwd_hash :: "string \<Rightarrow> string"
  py_str :: "val \<Rightarrow> string"

definition SECRET_KEY :: "env \<Rightarrow> string" where
  "SECRET_KEY e = (case JWT_SECRET e of None \<Rightarrow> ''supersecret-key-change'' | Some s \<Rightarrow> s)"

definition ALGORITHM :: string where
  "ALGORITHM = ''HS256''"

definition ACCESS_TOKEN_EXPIRE_MINUTES :: int where
  "ACCESS_TOKEN_EXPIRE_MINUTES = 60 * 24 * 7"

definition timedelta_minutes :: "int \<Rightarrow> int" where
  "timedelta_minutes m = m * 60"

definition timedelta_days :: "int \<Rightarrow> int" where
  "timedelta_days d = d * 86400"

text \<open>\<^verbatim>\<open>str(v)\<close> and the formatting of \<^verbatim>\<open>v\<close> in an f-string.\<close>

definition str_val :: "env \<Rightarrow> val \<Rightarrow> string" where
  "str_val e v =
     (case v of
        VStr s \<Rightarrow> s
      | VNone \<Rightarrow> ''None''
      | VObjectId i \<Rightarrow> str_ObjectId i
      | _ \<Rightarrow> py_str e v)"


subsection \<open>Tokens and the current user\<close>

definition create_access_token :: "env \<Rightarrow> doc \<Rightarrow> int option \<Rightarrow> timestamp \<Rightarrow> string" where
  "create_access_token e data expires_delta now =
     (let expire = now + (case expires_delta of
                            None \<Rightarrow> timedelta_minutes ACCESS_TOKEN_EXPIRE_MINUTES
                          | Some delta \<Rightarrow>
                              if delta = 0 then timedelta_minutes ACCESS_TOKEN_EXPIRE_MINUTES
                              else delta);
          to_encode = AList.update ''exp'' (VDatetime expire) data
      in jwt_encode e to_encode (SECRET_KEY e) ALGORITHM)"

fun is_JWTError :: "exn \<Rightarrow> bool" where
  "is_JWTError (JWTError m) = True"
| "is_JWTError _ = False"

text \<open>
  The first half of \<^verbatim>\<open>get_current_user\<close> (header and token, up to the
  \<^verbatim>\<open>except JWTError\<close>): the subject the token carries.
\<close>

definition get_current_user_id :: "env \<Rightarrow> string option \<Rightarrow> timestamp \<Rightarrow> exn + val" where
  "get_current_user_id e authorization now =
     (case authorization of
        None \<Rightarrow> Inl (HTTPException 401 ''Not authenticated'')
      | Some a \<Rightarrow>
          if a = [] then Inl (HTTPException 401 ''Not authenticated'')
          else (case partition_space a of
            (scheme, sep, token) \<Rightarrow>
              if lower scheme \<noteq> ''bearer'' \<or> token = []
              then Inl (HTTPException 401 ''Invalid auth header'')
              else (case jwt_decode e token (SECRET_KEY e) [ALGORITHM] now of
                      Inl x \<Rightarrow>
                        if is_JWTError x then Inl (HTTPException 401 ''Invalid token'')
                        else Inl x
                    | Inr payload \<Rightarrow>
                        (case dict_get payload ''sub'' of
                           VNone \<Rightarrow> Inl (HTTPException 401 ''Invalid token'')
                         | user_id \<Rightarrow> Inr user_id))))"

text \<open>The second half: the user record of that subject, \<^verbatim>\<open>_id\<close> replaced by \<^verbatim>\<open>id\<close>.\<close>

definition load_user :: "env \<Rightarrow> db \<Rightarrow> val \<Rightarrow> exn + doc" where
  "load_user e d user_id =
     (case ObjectId_new user_id of
        Inl x \<Rightarrow> Inl x
      | Inr i \<Rightarrow>
          (case find_one (db_user d) [(''_id'', VObjectId i)] of
             None \<Rightarrow> Inl (HTTPException 401 ''User not found'')
           | Some user \<Rightarrow>
               (case dict_getitem user ''_id'' of
                  Inl x \<Rightarrow> Inl x
                | Inr uid \<Rightarrow>
                    Inr (AList.delete ''_id''
                           (AList.update ''id'' (VStr (str_val e uid)) user)))))"

definition get_current_user :: "env \<Rightarrow> db \<Rightarrow> string option \<Rightarrow> timestamp \<Rightarrow> exn + doc" where
  "get_current_user e d authorization now =
     (case get_current_user_id e authorization now of
        Inl x \<Rightarrow> Inl x
      | Inr user_id \<Rightarrow> load_user e d user_id)"

definition me :: "doc \<Rightarrow> exn + doc" where
  "me current_user = Inr current_user"

subsection \<open>Registration and subscription\<close>


record SubscriptionRequest =
  plan :: string


text \<open>\<open>subscribe\<close> reads the clock for \<^verbatim>\<open>plan_ends_at\<close> and again for \<^verbatim>\<open>updated_at\<close>.\<close>

definition subscribe ::
  "SubscriptionRequest \<Rightarrow> doc \<Rightarrow> timestamp \<Rightarrow> timestamp \<Rightarrow> db \<Rightarrow> (exn + doc) \<times> db" where
  "subscribe body current_user t_ends t_updated d =
     (if plan body \<notin> set [''free'', ''pro'', ''elite'']
      then (Inl (HTTPException 400 ''Invalid plan''), d)
      else
        (let is_subscribed = (plan body \<noteq> ''free'');
             ends_at = (if is_subscribed then VDatetime (t_ends + timedelta_days 30) else VNone)
         in (case dict_getitem current_user ''id'' of
               Inl x \<Rightarrow> (Inl x, d)
             | Inr uid \<Rightarrow>
                 (case ObjectId_new uid of
                    Inl x \<Rightarrow> (Inl x, d)
                  | Inr i \<Rightarrow>
                      (case update_one (db_user d) [(''_id'', VObjectId i)]
                              (op_set [(''plan'', VStr (plan body)),
                                       (''subscribed'', VBool is_subscribed),
                                       (''plan_ends_at'', ends_at),
                                       (''updated_at'', VDatetime t_updated)]) of
                         Inl x \<Rightarrow> (Inl x, d)
                       | Inr users \<Rightarrow>
                           (Inr [(''status'', VStr ''ok''),
                                 (''plan'', VStr (plan body)),
                                 (''subscribed'', VBool is_subscribed),
                                 (''plan_ends_at'', ends_at)],
                            d\<lparr>db_user := users\<rparr>))))))"

subsection \<open>Listing\<close>

text \<open>
  The body of the \<^verbatim>\<open>try\<close> in \<open>list_wallpapers\<close>; the scheme of the header is not
  looked at.
\<close>

definition list_wallpapers_auth :: "env \<Rightarrow> db \<Rightarrow> string \<Rightarrow> timestamp \<Rightarrow> exn + bool" where
  "list_wallpapers_auth e d authorization now =
     (case partition_space authorization of
        (scheme, sep, token) \<Rightarrow>
          (case jwt_decode e token (SECRET_KEY e) [ALGORITHM] now of
             Inl x \<Rightarrow> Inl x
           | Inr payload \<Rightarrow>
               (let user_id = dict_get payload ''sub''
                in if truthy user_id
                   then (case ObjectId_new user_id of
                           Inl x \<Rightarrow> Inl x
                         | Inr i \<Rightarrow>
                             (case find_one (db_user d) [(''_id'', VObjectId i)] of
                                None \<Rightarrow> Inr False
                              | Some user \<Rightarrow> Inr (truthy (dict_get user ''subscribed''))))
                   else Inr False)))"

text \<open>
  The cursor \<^verbatim>\<open>find(query).sort("created_at", -1).limit(limit)\<close>: newest first (a
  document without a date last), a limit of 0 is no limit, a negative one counts as its
  absolute value.
\<close>

definition created_key :: "ObjectId \<times> doc \<Rightarrow> int option" where
  "created_key w = (case dict_get (snd w) ''created_at'' of VDatetime t \<Rightarrow> Some t | _ \<Rightarrow> None)"

fun key_less :: "int option \<Rightarrow> int option \<Rightarrow> bool" where
  "key_less None (Some b) = True"
| "key_less (Some a) (Some b) = (a < b)"
| "key_less _ None = False"

fun insert_desc :: "ObjectId \<times> doc \<Rightarrow> collection \<Rightarrow> collection" where
  "insert_desc w [] = [w]"
| "insert_desc w (y # ys) =
     (if key_less (created_key w) (created_key y) then y # insert_desc w ys else w # y # ys)"

definition sort_desc :: "collection \<Rightarrow> collection" where
  "sort_desc ws = foldr insert_desc ws []"

definition cursor_limit :: "int \<Rightarrow> collection \<Rightarrow> collection" where
  "cursor_limit n ws = (if n = 0 then ws else take (nat \<bar>n\<bar>) ws)"

text \<open>The dict built in the loop of \<open>list_wallpapers\<close> for the wallpaper \<open>w\<close>.\<close>

definition wallpaper_item :: "env \<Rightarrow> bool \<Rightarrow> doc \<Rightarrow> doc" where
  "wallpaper_item e is_subscribed w =
     [(''id'', VStr (str_val e (dict_get w ''_id''))),
      (''title'', dict_get w ''title''),
      (''category'', dict_get w ''category''),
      (''resolution'', dict_get w ''resolution''),
      (''thumbnail_url'',
         (if truthy (dict_get w ''thumbnail_url'') then dict_get w ''thumbnail_url''
          else dict_get w ''image_url'')),
      (''is_live'', dict_get_default w ''is_live'' (VBool False)),
      (''author'', dict_get w ''author''),
      (''downloads'', dict_get_default w ''downloads'' (VInt 0)),
      (''image_url'',
         (if is_subscribed then dict_get w ''image_url''
          else VStr (str_val e (dict_get w ''image_url'') @ ''?wm=1''))),
      (''watermarked'', VBool (\<not> is_subscribed))]"

record listing =
  items :: "doc list"
  subscribed :: bool

definition list_wallpapers ::
  "env \<Rightarrow> string option \<Rightarrow> int \<Rightarrow> string option \<Rightarrow> timestamp \<Rightarrow> db \<Rightarrow> exn + listing" where
  "list_wallpapers e category limit authorization now d =
     (let is_subscribed =
            (case authorization of
               None \<Rightarrow> False
             | Some a \<Rightarrow>
                 if a = [] then False
                 else (case list_wallpapers_auth e d a now of Inl x \<Rightarrow> False | Inr b \<Rightarrow> b));
          query = (case category of
                     None \<Rightarrow> []
                   | Some c \<Rightarrow> if c = [] then [] else [(''category'', VStr c)]);
          cursor = cursor_limit limit (sort_desc (filter (matches query) (db_wallpaper d)))
      in Inr \<lparr>items = map (\<lambda>w. wallpaper_item e is_subscribed (as_doc w)) cursor,
              subscribed = is_subscribed\<rparr>)"

subsection \<open>Download\<close>

definition download_wallpaper :: "string \<Rightarrow> doc \<Rightarrow> db \<Rightarrow> (exn + doc) \<times> db" where
  "download_wallpaper wallpaper_id current_user d =
     (case ObjectId_new (VStr wallpaper_id) of
        Inl x \<Rightarrow> (Inl x, d)
      | Inr i \<Rightarrow>
          (case find_one (db_wallpaper d) [(''_id'', VObjectId i)] of
             None \<Rightarrow> (Inl (HTTPException 404 ''Wallpaper not found''), d)
           | Some wp \<Rightarrow>
               if \<not> truthy (dict_get current_user ''subscribed'')
               then (Inl (HTTPException 402
                            ''Subscription required for full-resolution download''), d)
               else (case update_one (db_wallpaper d) [(''_id'', VObjectId i)]
                            (op_inc ''downloads'' 1) of
                       Inl x \<Rightarrow> (Inl x, d)
                     | Inr wallpapers \<Rightarrow>
                         (Inr [(''url'', dict_get wp ''image_url'')],
                          d\<lparr>db_wallpaper := wallpapers\<rparr>))))"

subsection \<open>Administration\<close>

record WallpaperCreate =
  title :: string
  category :: string
  image_url :: string
  thumbnail_url :: "string option"
  resolution :: string
  tags :: "string list"
  is_live :: bool
  author :: "string option"

definition opt_str :: "string option \<Rightarrow> val" where
  "opt_str s = (case s of None \<Rightarrow> VNone | Some x \<Rightarrow> VStr x)"

definition model_dump :: "WallpaperCreate \<Rightarrow> doc" where
  "model_dump body =
     [(''title'', VStr (title body)),
      (''category'', VStr (category body)),
      (''image_url'', VStr (image_url body)),
      (''thumbnail_url'', opt_str (thumbnail_url body)),
      (''resolution'', VStr (resolution body)),
      (''tags'', VList (map VStr (tags body))),
      (''is_live'', VBool (is_live body)),
      (''author'', opt_str (author body))]"

text \<open>
  \<^verbatim>\<open>insert_one\<close> adds the generated \<^verbatim>\<open>_id\<close> to the dict it is given, so the dict
  returned carries it.
\<close>

definition admin_create_wallpaper ::
  "WallpaperCreate \<Rightarrow> doc \<Rightarrow> ObjectId \<Rightarrow> timestamp \<Rightarrow> timestamp \<Rightarrow> db \<Rightarrow> (exn + doc) \<times> db" where
  "admin_create_wallpaper body current_user new_id t_created t_updated d =
     (if dict_get current_user ''role'' \<noteq> VStr ''admin''
      then (Inl (HTTPException 403 ''Admin only''), d)
      else
        (let document = model_dump body @
                          [(''downloads'', VInt 0),
                           (''created_at'', VDatetime t_created),
                           (''updated_at'', VDatetime t_updated)]
         in (case insert_one (db_wallpaper d) new_id document of
               Inl x \<Rightarrow> (Inl x, d)
             | Inr wallpapers \<Rightarrow>
                 (Inr ((''id'', VStr (str_ObjectId new_id)) # document
                         @ [(''_id'', VObjectId new_id)]),
                  d\<lparr>db_wallpaper := wallpapers\<rparr>))))"

definition samples :: "doc list" where
  "samples =
     [[(''title'', VStr ''Galactic Neon Wave''),
       (''category'', VStr ''scenery''),
       (''image_url'', VStr ''https://images.unsplash.com/photo-1500530855697-b586d89ba3ee''),
       (''thumbnail_url'',
          VStr ''https://images.unsplash.com/photo-1500530855697-b586d89ba3ee?w=1200''),
       (''tags'', VList [VStr ''neon'', VStr ''galaxy''])],
      [(''title'', VStr ''Mystic Forest''),
       (''category'', VStr ''nature''),
       (''image_url'', VStr ''https://images.unsplash.com/photo-1501785888041-af3ef285b470''),
       (''thumbnail_url'',
          VStr ''https://images.unsplash.com/photo-1501785888041-af3ef285b470?w=1200''),
       (''tags'', VList [VStr ''forest'', VStr ''fog''])],
      [(''title'', VStr ''City Night Drive''),
       (''category'', VStr ''scenery''),
       (''image_url'', VStr ''https://images.unsplash.com/photo-1508057198894-247b23fe5ade''),
       (''thumbnail_url'',
          VStr ''https://images.unsplash.com/photo-1508057198894-247b23fe5ade?w=1200''),
       (''tags'', VList [VStr ''city'', VStr ''night''])],
      [(''title'', VStr ''Anime Neon Alley''),
       (''category'', VStr ''anime''),
       (''image_url'', VStr ''https://images.unsplash.com/photo-1542396601-dca920ea2807''),
       (''thumbnail_url'',
          VStr ''https://images.unsplash.com/photo-1542396601-dca920ea2807?w=1200''),
       (''tags'', VList [VStr ''anime'', VStr ''neon''])]]"

text \<open>
  The loop of \<open>seed_sample\<close>. The \<open>k\<close>-th sample, when it is inserted, gets the id and the
  two clock readings \<open>fresh k\<close>. An exception leaves the inserts made so far in place.
\<close>

fun seed_loop ::
  "(nat \<Rightarrow> ObjectId \<times> timestamp \<times> timestamp) \<Rightarrow> nat \<Rightarrow> doc list \<Rightarrow> collection
     \<Rightarrow> (exn + unit) \<times> collection" where
  "seed_loop fresh k [] coll = (Inr (), coll)"
| "seed_loop fresh k (s # ss) coll =
     (case find_one coll [(''title'', dict_get s ''title'')] of
        Some existing \<Rightarrow> seed_loop fresh (Suc k) ss coll
      | None \<Rightarrow>
          (case fresh k of
             (new_id, t_created, t_updated) \<Rightarrow>
               (case insert_one coll new_id
                       (s @ [(''resolution'', VStr ''3840x2160''),
                             (''is_live'', VBool False),
                             (''downloads'', VInt 0),
                             (''created_at'', VDatetime t_created),
                             (''updated_at'', VDatetime t_updated)]) of
                  Inl x \<Rightarrow> (Inl x, coll)
                | Inr coll' \<Rightarrow> seed_loop fresh (Suc k) ss coll')))"

definition seed_sample ::
  "doc \<Rightarrow> (nat \<Rightarrow> ObjectId \<times> timestamp \<times> timestamp) \<Rightarrow> db \<Rightarrow> (exn + doc) \<times> db" where
  "seed_sample current_user fresh d =
     (if dict_get current_user ''role'' \<noteq> VStr ''admin''
      then (Inl (HTTPException 403 ''Admin only''), d)
      else (case seed_loop fresh 0 samples (db_wallpaper d) of
              (Inl x, wallpapers) \<Rightarrow> (Inl x, d\<lparr>db_wallpaper := wallpapers\<rparr>)
            | (Inr u, wallpapers) \<Rightarrow>
                (Inr [(''status'', VStr ''ok'')], d\<lparr>db_wallpaper := wallpapers\<rparr>)))"

subsection \<open>What python-jose does with a token it has issued\<close>

text \<open>
  \<^verbatim>\<open>jwt.encode\<close> writes the datetimes under \<^verbatim>\<open>exp\<close>, \<^verbatim>\<open>iat\<close> and \<^verbatim>\<open>nbf\<close> as
  integer time stamps.
\<close>

definition jose_payload :: "doc \<Rightarrow> doc" where
  "jose_payload claims =
     map (\<lambda>kv. (fst kv,
                 (case snd kv of
                    VDatetime t \<Rightarrow>
                      if fst kv \<in> set [''exp'', ''iat'', ''nbf''] then VInt t else snd kv
                  | _ \<Rightarrow> snd kv))) claims"

text \<open>
  The claims \<^verbatim>\<open>jwt.decode\<close> validates once the signature is good, in its order. An
  \<^verbatim>\<open>exp\<close> that is present is converted with \<^verbatim>\<open>int\<close> (which raises \<^verbatim>\<open>TypeError\<close> on
  \<^verbatim>\<open>None\<close> and on a list, and whose \<^verbatim>\<open>ValueError\<close> becomes \<^verbatim>\<open>JWTClaimsError\<close>; text
  is taken here as text that \<^verbatim>\<open>int\<close> does not read) and raises
  \<^verbatim>\<open>ExpiredSignatureError\<close> once it lies before the clock; a \<^verbatim>\<open>sub\<close> that is present
  and is not a string raises \<^verbatim>\<open>JWTClaimsError\<close>. Both are subclasses of \<^verbatim>\<open>JWTError\<close>.
\<close>

definition jose_validate_sub :: "doc \<Rightarrow> exn + doc" where
  "jose_validate_sub payload =
     (case map_of payload ''sub'' of
        None \<Rightarrow> Inr payload
      | Some (VStr s) \<Rightarrow> Inr payload
      | Some _ \<Rightarrow> Inl (JWTError ''Subject must be a string.''))"

definition jose_validate_exp :: "int \<Rightarrow> timestamp \<Rightarrow> doc \<Rightarrow> exn + doc" where
  "jose_validate_exp ex now payload =
     (if ex < now then Inl (JWTError ''Signature has expired.'')
      else jose_validate_sub payload)"

definition jose_validate :: "doc \<Rightarrow> timestamp \<Rightarrow> exn + doc" where
  "jose_validate payload now =
     (case map_of payload ''exp'' of
        None \<Rightarrow> jose_validate_sub payload
      | Some (VInt ex) \<Rightarrow> jose_validate_exp ex now payload
      | Some (VBool b) \<Rightarrow> jose_validate_exp (if b then 1 else 0) now payload
      | Some (VStr s) \<Rightarrow>
          Inl (JWTError ''Expiration Time claim (exp) must be an integer.'')
      | Some _ \<Rightarrow> Inl TypeError)"

text \<open>
  The library's round trip for the claims \<open>claims\<close>, under the key and the algorithm of
  this program: the token is not empty, and decoding it at any time gives the validated
  payload.
\<close>

definition jose_roundtrip :: "env \<Rightarrow> doc \<Rightarrow> bool" where
  "jose_roundtrip e claims \<longleftrightarrow>
     jwt_encode e claims (SECRET_KEY e) ALGORITHM \<noteq> [] \<and>
     (\<forall>now. jwt_decode e (jwt_encode e claims (SECRET_KEY e) ALGORITHM)
               (SECRET_KEY e) [ALGORITHM] now
             = jose_validate (jose_payload claims) now)"

subsection \<open>The subscription invariant\<close>



definition valid_ids :: "collection \<Rightarrow> bool" where
  "valid_ids coll \<longleftrightarrow> list_all (\<lambda>iu. valid_oid (fst iu)) coll"

subsection \<open>Example data\<close>

text \<open>
  A codec that knows finitely many tokens: \<open>book\<close> lists each token with the key it was
  signed with and its payload. Encoding looks the token of a payload up, decoding looks the
  payload of a token up and validates it; every other string is rejected.
\<close>

definition book_encode :: "(string \<times> string \<times> doc) list \<Rightarrow> doc \<Rightarrow> string \<Rightarrow> string \<Rightarrow> string" where
  "book_encode book claims key alg =
     (case List.find (\<lambda>b. fst (snd b) = key \<and> snd (snd b) = jose_payload claims) book of
        None \<Rightarrow> []
      | Some b \<Rightarrow> fst b)"

definition book_decode ::
  "(string \<times> string \<times> doc) list \<Rightarrow> string \<Rightarrow> string \<Rightarrow> string list \<Rightarrow> timestamp \<Rightarrow> exn + doc" where
  "book_decode book token key algs now =
     (case List.find (\<lambda>b. fst b = token \<and> fst (snd b) = key) book of
        None \<Rightarrow> Inl (JWTError ''Signature verification failed.'')
      | Some b \<Rightarrow> jose_validate (snd (snd b)) now)"

definition ex_uid :: ObjectId where
  "ex_uid = OID ''65a1b2c3d4e5f60718293a4b''"

definition ex_wid :: ObjectId where
  "ex_wid = OID ''65a1b2c3d4e5f60718293a4c''"

text \<open>
  Two tokens of the user \<open>ex_uid\<close>: one issued at time 100 (at registration), one issued at
  time 2599000; one signed token that carries no subject; one token signed with a key
  that is not the server's; and one signed token whose subject is not the text of an
  ObjectId.
\<close>

definition ex_book :: "(string \<times> string \<times> doc) list" where
  "ex_book =
     [(''tok.reg.100'', ''supersecret-key-change'',
         [(''sub'', VStr ''65a1b2c3d4e5f60718293a4b''), (''exp'', VInt 604900)]),
      (''tok.login.2599000'', ''supersecret-key-change'',
         [(''sub'', VStr ''65a1b2c3d4e5f60718293a4b''), (''exp'', VInt 3203800)]),
      (''tok.nosub'', ''supersecret-key-change'', [(''exp'', VInt 3203800)]),
      (''tok.forged'', ''some-other-key'',
         [(''sub'', VStr ''65a1b2c3d4e5f60718293a4b''), (''exp'', VInt 3203800)]),
      (''tok.badsub'', ''supersecret-key-change'',
         [(''sub'', VStr ''abc''), (''exp'', VInt 3203800)])]"

definition ex_env :: env where
  "ex_env = \<lparr>JWT_SECRET = None,
             jwt_encode = book_encode ex_book,
             jwt_decode = book_decode ex_book,
             pwd_hash = (\<lambda>p. ''$2b$12$'' @ p),
             py_str = (\<lambda>v. ''<object>'')\<rparr>"


definition ex_wallpaper :: doc where
  "ex_wallpaper =
     [(''title'', VStr ''Mystic Forest''),
      (''category'', VStr ''nature''),
      (''image_url'', VStr ''https://img.example/forest.jpg''),
      (''thumbnail_url'', VNone),
      (''resolution'', VStr ''3840x2160''),
      (''tags'', VList [VStr ''forest'']),
      (''is_live'', VBool False),
      (''author'', VNone),
      (''downloads'', VInt 7),
      (''created_at'', VDatetime 50),
      (''updated_at'', VDatetime 50)]"

text \<open>The store before anybody registered, with one wallpaper.\<close>

definition ex_db0 :: db where
  "ex_db0 = \<lparr>db_user = [], db_wallpaper = [(ex_wid, ex_wallpaper)]\<rparr>"

text \<open>The user record after \<open>register\<close> at time 100.\<close>

definition ex_user_free :: doc where
  "ex_user_free =
     [(''name'', VStr ''Ann''),
      (''email'', VStr ''ann@example.com''),
      (''password_hash'', VStr ''$2b$12$s3cret''),
      (''role'', VStr ''user''),
      (''subscribed'', VBool False),
      (''plan'', VStr ''free''),
      (''plan_ends_at'', VNone),
      (''created_at'', VDatetime 100),
      (''updated_at'', VDatetime 100)]"

definition ex_db1 :: db where
  "ex_db1 = \<lparr>db_user = [(ex_uid, ex_user_free)], db_wallpaper = [(ex_wid, ex_wallpaper)]\<rparr>"

text \<open>The user record after \<open>subscribe\<close> to \<^verbatim>\<open>pro\<close> at time 200: the plan ends at 2592200.\<close>

definition ex_user_pro :: doc where
  "ex_user_pro =
     [(''name'', VStr ''Ann''),
      (''email'', VStr ''ann@example.com''),
      (''password_hash'', VStr ''$2b$12$s3cret''),
      (''role'', VStr ''user''),
      (''subscribed'', VBool True),
      (''plan'', VStr ''pro''),
      (''plan_ends_at'', VDatetime 2592200),
      (''created_at'', VDatetime 100),
      (''updated_at'', VDatetime 200)]"

definition ex_db2 :: db where
  "ex_db2 = \<lparr>db_user = [(ex_uid, ex_user_pro)], db_wallpaper = [(ex_wid, ex_wallpaper)]\<rparr>"

text \<open>What \<open>get_current_user\<close> hands to a handler for that user, in either state.\<close>

definition ex_current_free :: doc where
  "ex_current_free = ex_user_free @ [(''id'', VStr ''65a1b2c3d4e5f60718293a4b'')]"

definition ex_current_pro :: doc where
  "ex_current_pro = ex_user_pro @ [(''id'', VStr ''65a1b2c3d4e5f60718293a4b'')]"

definition ex_create :: WallpaperCreate where
  "ex_create = \<lparr>title = ''Dunes'', category = ''nature'',
                image_url = ''https://img.example/dunes.jpg'', thumbnail_url = None,
                resolution = ''3840x2160'', tags = [''sand''], is_live = False, author = None\<rparr>"

definition ex_fresh :: "nat \<Rightarrow> ObjectId \<times> timestamp \<times> timestamp" where
  "ex_fresh k =
     (OID (''65a1b2c3d4e5f60718293a5'' @ [''0123456789abcdef'' ! (k mod 16)]), 300, 300)"

section \<open>Properties\<close>

subsection \<open>The store\<close>

lemma match_id [simp]: "matches [(''_id'', VObjectId i)] e \<longleftrightarrow> fst e = i"
  by (cases e) (auto simp: matches_def match_field_def)

lemma find_one_id:
  "find_one coll [(''_id'', VObjectId i)] = map_option (\<lambda>d. as_doc (i, d)) (map_of coll i)"
  by (induction coll) (auto simp: find_one_def)

lemma update_one_id:
  "update_one coll [(''_id'', VObjectId i)] f =
     (case map_of coll i of
        None \<Rightarrow> Inr coll
      | Some d0 \<Rightarrow> (case f d0 of Inl x \<Rightarrow> Inl x | Inr d' \<Rightarrow> Inr (AList.update i d' coll)))"
  by (induction coll) (auto split: sum.splits option.splits)

lemma op_inc_downloads:
  "dict_get_default w ''downloads'' (VInt 0) = VInt n \<Longrightarrow>
     op_inc ''downloads'' 1 w = Inr (AList.update ''downloads'' (VInt (n + 1)) w)"
  by (auto simp: op_inc_def dict_get_default_def split: option.splits val.splits)

lemma set_insert_desc: "set (insert_desc w ws) = insert w (set ws)"
  by (induction ws) auto

lemma set_sort_desc: "set (sort_desc ws) = set ws"
  unfolding sort_desc_def by (induction ws) (auto simp: set_insert_desc)

lemma set_cursor_limit: "set (cursor_limit n ws) \<subseteq> set ws"
  by (auto simp: cursor_limit_def dest: in_set_takeD)

subsection \<open>Changing the plan\<close>

text \<open>
  C8. A requested plan other than \<^verbatim>\<open>free\<close>, \<^verbatim>\<open>pro\<close> and \<^verbatim>\<open>elite\<close> makes
  \<open>subscribe\<close> fail with the 400 error \<^verbatim>\<open>Invalid plan\<close>, and the store after the call
  is the store before it: no user's plan, subscribed flag or plan end has changed.
\<close>

theorem subscribe_invalid_plan:
  "plan body \<notin> {''free'', ''pro'', ''elite''} \<Longrightarrow>
     subscribe body current_user t_ends t_updated d
       = (Inl (HTTPException 400 ''Invalid plan''), d)"
  by (simp add: subscribe_def)

theorem subscribe_invalid_plan_witness:
  "plan \<lparr>plan = ''gold''\<rparr> \<notin> {''free'', ''pro'', ''elite''} \<and>
   subscribe \<lparr>plan = ''gold''\<rparr> ex_current_pro 300 300 ex_db2
     = (Inl (HTTPException 400 ''Invalid plan''), ex_db2)"
proof -
  have h: "plan \<lparr>plan = ''gold''\<rparr> \<notin> {''free'', ''pro'', ''elite''}" by simp
  show ?thesis using h subscribe_invalid_plan [OF h] by simp
qed

subsection \<open>Download\<close>

text \<open>
  The three outcomes of a download request whose \<open>wallpaper_id\<close> is text that
  \<^verbatim>\<open>ObjectId\<close> accepts: if no wallpaper has that id the result is the 404 error and the
  store is unchanged; if there is one and the current user's \<^verbatim>\<open>subscribed\<close> field is not
  truthy the result is the 402 error and the store (so the download counter) is unchanged;
  if it is truthy (and the counter is an integer or absent) the result is the url, equal to
  the stored \<^verbatim>\<open>image_url\<close>, the counter of that wallpaper has grown by exactly one, its
  other fields, the other wallpapers and the users are as before.
\<close>

lemma download_wallpaper_cases:
  assumes wid: "ObjectId_new (VStr wallpaper_id) = Inr i"
  shows
   "(map_of (db_wallpaper d) i = None \<longrightarrow>
       download_wallpaper wallpaper_id current_user d
         = (Inl (HTTPException 404 ''Wallpaper not found''), d)) \<and>
    (\<forall>w. map_of (db_wallpaper d) i = Some w \<and> \<not> truthy (dict_get current_user ''subscribed'') \<longrightarrow>
       download_wallpaper wallpaper_id current_user d
         = (Inl (HTTPException 402 ''Subscription required for full-resolution download''), d)) \<and>
    (\<forall>w n. map_of (db_wallpaper d) i = Some w \<and> truthy (dict_get current_user ''subscribed'') \<and>
            dict_get_default w ''downloads'' (VInt 0) = VInt n \<longrightarrow>
       (\<exists>d' w'. download_wallpaper wallpaper_id current_user d
                   = (Inr [(''url'', dict_get w ''image_url'')], d') \<and>
                 db_user d' = db_user d \<and>
                 map_of (db_wallpaper d') i = Some w' \<and>
                 dict_get_default w' ''downloads'' (VInt 0) = VInt (n + 1) \<and>
                 (\<forall>k. k \<noteq> ''downloads'' \<longrightarrow> map_of w' k = map_of w k) \<and>
                 (\<forall>j. j \<noteq> i \<longrightarrow> map_of (db_wallpaper d') j = map_of (db_wallpaper d) j)))"
proof (intro conjI allI impI)
  assume "map_of (db_wallpaper d) i = None"
  then show "download_wallpaper wallpaper_id current_user d
         = (Inl (HTTPException 404 ''Wallpaper not found''), d)"
    using wid by (simp add: download_wallpaper_def find_one_id)
next
  fix w
  assume "map_of (db_wallpaper d) i = Some w \<and> \<not> truthy (dict_get current_user ''subscribed'')"
  then show "download_wallpaper wallpaper_id current_user d
         = (Inl (HTTPException 402 ''Subscription required for full-resolution download''), d)"
    using wid by (simp add: download_wallpaper_def find_one_id)
next
  fix w n
  assume a: "map_of (db_wallpaper d) i = Some w \<and> truthy (dict_get current_user ''subscribed'') \<and>
            dict_get_default w ''downloads'' (VInt 0) = VInt n"
  let ?w' = "AList.update ''downloads'' (VInt (n + 1)) w"
  let ?d' = "d\<lparr>db_wallpaper := AList.update i ?w' (db_wallpaper d)\<rparr>"
  have img: "dict_get (as_doc (i, w)) ''image_url'' = dict_get w ''image_url''"
    by (simp add: dict_get_def dict_get_default_def)
  have r: "download_wallpaper wallpaper_id current_user d
                   = (Inr [(''url'', dict_get w ''image_url'')], ?d')"
    using wid a op_inc_downloads[of w n] img
    by (simp add: download_wallpaper_def find_one_id update_one_id)
  have "map_of (db_wallpaper ?d') i = Some ?w'" by (simp add: update_conv')
  moreover have "dict_get_default ?w' ''downloads'' (VInt 0) = VInt (n + 1)"
    by (simp add: dict_get_default_def update_conv')
  moreover have "\<forall>k. k \<noteq> ''downloads'' \<longrightarrow> map_of ?w' k = map_of w k"
    by (simp add: update_conv')
  moreover have "\<forall>j. j \<noteq> i \<longrightarrow> map_of (db_wallpaper ?d') j = map_of (db_wallpaper d) j"
    by (simp add: update_conv')
  ultimately show "\<exists>d' w'. download_wallpaper wallpaper_id current_user d
                   = (Inr [(''url'', dict_get w ''image_url'')], d') \<and>
                 db_user d' = db_user d \<and>
                 map_of (db_wallpaper d') i = Some w' \<and>
                 dict_get_default w' ''downloads'' (VInt 0) = VInt (n + 1) \<and>
                 (\<forall>k. k \<noteq> ''downloads'' \<longrightarrow> map_of w' k = map_of w k) \<and>
                 (\<forall>j. j \<noteq> i \<longrightarrow> map_of (db_wallpaper d') j = map_of (db_wallpaper d) j)"
    using r by (intro exI[of _ ?d'] exI[of _ ?w']) simp
qed

lemma ex_download_cases:
  "ObjectId_new (VStr ''65a1b2c3d4e5f60718293a4c'') = Inr ex_wid \<and>
   ObjectId_new (VStr ''65a1b2c3d4e5f60718293a4b'') = Inr ex_uid \<and>
   map_of (db_wallpaper ex_db2) ex_uid = None \<and>
   download_wallpaper ''65a1b2c3d4e5f60718293a4b'' ex_current_pro ex_db2
     = (Inl (HTTPException 404 ''Wallpaper not found''), ex_db2) \<and>
   map_of (db_wallpaper ex_db1) ex_wid = Some ex_wallpaper \<and>
   \<not> truthy (dict_get ex_current_free ''subscribed'') \<and>
   download_wallpaper ''65a1b2c3d4e5f60718293a4c'' ex_current_free ex_db1
     = (Inl (HTTPException 402 ''Subscription required for full-resolution download''), ex_db1) \<and>
   map_of (db_wallpaper ex_db2) ex_wid = Some ex_wallpaper \<and>
   truthy (dict_get ex_current_pro ''subscribed'') \<and>
   dict_get_default ex_wallpaper ''downloads'' (VInt 0) = VInt 7 \<and>
   (\<exists>d' w'. download_wallpaper ''65a1b2c3d4e5f60718293a4c'' ex_current_pro ex_db2
               = (Inr [(''url'', dict_get ex_wallpaper ''image_url'')], d') \<and>
             db_user d' = db_user ex_db2 \<and>
             map_of (db_wallpaper d') ex_wid = Some w' \<and>
             dict_get_default w' ''downloads'' (VInt 0) = VInt 8)"
proof -
  have w: "ObjectId_new (VStr ''65a1b2c3d4e5f60718293a4c'') = Inr ex_wid"
    by (simp add: ex_wid_def is_space_def is_hex_def lower_char_def)
  have u: "ObjectId_new (VStr ''65a1b2c3d4e5f60718293a4b'') = Inr ex_uid"
    by (simp add: ex_uid_def is_space_def is_hex_def lower_char_def)
  have n: "map_of (db_wallpaper ex_db2) ex_uid = None"
    by (simp add: ex_db2_def ex_uid_def ex_wid_def)
  have s1: "map_of (db_wallpaper ex_db1) ex_wid = Some ex_wallpaper"
    by (simp add: ex_db1_def)
  have s2: "map_of (db_wallpaper ex_db2) ex_wid = Some ex_wallpaper"
    by (simp add: ex_db2_def)
  have f: "\<not> truthy (dict_get ex_current_free ''subscribed'')"
    by (simp add: ex_current_free_def ex_user_free_def dict_get_def dict_get_default_def)
  have p: "truthy (dict_get ex_current_pro ''subscribed'')"
    by (simp add: ex_current_pro_def ex_user_pro_def dict_get_def dict_get_default_def)
  have c: "dict_get_default ex_wallpaper ''downloads'' (VInt 0) = VInt 7"
    by (simp add: ex_wallpaper_def dict_get_default_def)
  have r1: "download_wallpaper ''65a1b2c3d4e5f60718293a4b'' ex_current_pro ex_db2
     = (Inl (HTTPException 404 ''Wallpaper not found''), ex_db2)"
    using download_wallpaper_cases [OF u, of ex_db2 ex_current_pro] n by blast
  have r2: "download_wallpaper ''65a1b2c3d4e5f60718293a4c'' ex_current_free ex_db1
     = (Inl (HTTPException 402 ''Subscription required for full-resolution download''), ex_db1)"
    using download_wallpaper_cases [OF w, of ex_db1 ex_current_free] s1 f by blast
  have r3: "\<exists>d' w'. download_wallpaper ''65a1b2c3d4e5f60718293a4c'' ex_current_pro ex_db2
               = (Inr [(''url'', dict_get ex_wallpaper ''image_url'')], d') \<and>
             db_user d' = db_user ex_db2 \<and>
             map_of (db_wallpaper d') ex_wid = Some w' \<and>
             dict_get_default w' ''downloads'' (VInt 0) = VInt (7 + 1)"
    using download_wallpaper_cases [OF w, of ex_db2 ex_current_pro] s2 p c by blast
  have r3': "\<exists>d' w'. download_wallpaper ''65a1b2c3d4e5f60718293a4c'' ex_current_pro ex_db2
               = (Inr [(''url'', dict_get ex_wallpaper ''image_url'')], d') \<and>
             db_user d' = db_user ex_db2 \<and>
             map_of (db_wallpaper d') ex_wid = Some w' \<and>
             dict_get_default w' ''downloads'' (VInt 0) = VInt 8"
    using r3 by simp
  show ?thesis
    by (intro conjI w u n r1 s1 f r2 s2 p c r3')
qed

text \<open>
  Text that \<^verbatim>\<open>ObjectId\<close> rejects never reaches the lookup: the exception of
  \<^verbatim>\<open>ObjectId(wallpaper_id)\<close> leaves the handler, which catches nothing.
\<close>

lemma download_wallpaper_malformed:
  "ObjectId_new (VStr wallpaper_id) = Inl x \<Longrightarrow>
     download_wallpaper wallpaper_id current_user d = (Inl x, d)"
  by (simp add: download_wallpaper_def)

subsection \<open>Administration\<close>

lemma seed_loop_no_http:
  "fst (seed_loop fresh k ss coll) \<noteq> Inl (HTTPException c m)"
  by (induction ss arbitrary: k coll)
     (auto simp: insert_one_def split: option.splits prod.splits sum.splits)

lemma seed_loop_fresh:
  assumes "\<forall>j<n. \<forall>k<n. fst (fresh j) = fst (fresh k) \<longrightarrow> j = k"
  shows "k + length ss \<le> n \<Longrightarrow> \<forall>j. k \<le> j \<and> j < n \<longrightarrow> fst (fresh j) \<notin> fst ` set coll
           \<Longrightarrow> fst (seed_loop fresh k ss coll) = Inr ()"
proof (induction ss arbitrary: k coll)
  case Nil
  then show ?case by simp
next
  case (Cons s ss)
  have kn: "k < n" and sk: "Suc k + length ss \<le> n" using Cons.prems(1) by auto
  show ?case
  proof (cases "find_one coll [(''title'', dict_get s ''title'')]")
    case None
    obtain i t1 t2 where fk: "fresh k = (i, t1, t2)" by (cases "fresh k") auto
    have "i \<notin> fst ` set coll" using Cons.prems(2) fk kn by (metis fst_conv order_refl)
    moreover have "\<forall>j. Suc k \<le> j \<and> j < n \<longrightarrow> fst (fresh j) \<notin> fst ` set (coll @ [(i, d')])" for d'
    proof (intro allI impI)
      fix j assume j: "Suc k \<le> j \<and> j < n"
      then have "fst (fresh j) \<notin> fst ` set coll" using Cons.prems(2) by simp
      moreover have "fst (fresh j) \<noteq> i" using assms j kn fk by (metis Suc_n_not_le_n fst_conv)
      ultimately show "fst (fresh j) \<notin> fst ` set (coll @ [(i, d')])" by (auto simp: image_Un)
    qed
    ultimately show ?thesis using None fk Cons.IH[OF sk]
      by (simp add: insert_one_def)
  next
    case (Some a)
    have "\<forall>j. Suc k \<le> j \<and> j < n \<longrightarrow> fst (fresh j) \<notin> fst ` set coll" using Cons.prems(2) by simp
    then show ?thesis using Some Cons.IH[OF sk] by simp
  qed
qed

text \<open>
  C10. The two admin operations, creating a wallpaper and seeding the samples, are refused
  with the 403 error \<^verbatim>\<open>Admin only\<close>, the store unchanged, for every current user whose
  \<^verbatim>\<open>role\<close> is not \<^verbatim>\<open>"admin"\<close> (a missing role included); for the role \<^verbatim>\<open>"admin"\<close>
  they are never refused with an HTTP error, and they succeed when the ids the driver
  generates are fresh.
\<close>

theorem admin_gate:
  "(dict_get current_user ''role'' \<noteq> VStr ''admin'' \<longrightarrow>
      admin_create_wallpaper body current_user new_id t_created t_updated d
        = (Inl (HTTPException 403 ''Admin only''), d) \<and>
      seed_sample current_user fresh d = (Inl (HTTPException 403 ''Admin only''), d)) \<and>
   (dict_get current_user ''role'' = VStr ''admin'' \<longrightarrow>
      (\<forall>c m. fst (admin_create_wallpaper body current_user new_id t_created t_updated d)
                \<noteq> Inl (HTTPException c m)) \<and>
      (\<forall>c m. fst (seed_sample current_user fresh d) \<noteq> Inl (HTTPException c m)) \<and>
      (new_id \<notin> fst ` set (db_wallpaper d) \<longrightarrow>
         (\<exists>r. fst (admin_create_wallpaper body current_user new_id t_created t_updated d) = Inr r)) \<and>
      ((\<forall>j<4. \<forall>k<4. fst (fresh j) = fst (fresh k) \<longrightarrow> j = k) \<and>
       (\<forall>k<4. fst (fresh k) \<notin> fst ` set (db_wallpaper d)) \<longrightarrow>
         fst (seed_sample current_user fresh d) = Inr [(''status'', VStr ''ok'')]))"
proof (intro conjI impI allI)
  assume "dict_get current_user ''role'' \<noteq> VStr ''admin''"
  then show "admin_create_wallpaper body current_user new_id t_created t_updated d
        = (Inl (HTTPException 403 ''Admin only''), d)"
    and "seed_sample current_user fresh d = (Inl (HTTPException 403 ''Admin only''), d)"
    by (simp_all add: admin_create_wallpaper_def seed_sample_def)
next
  fix c m
  assume a: "dict_get current_user ''role'' = VStr ''admin''"
  show "fst (admin_create_wallpaper body current_user new_id t_created t_updated d)
                \<noteq> Inl (HTTPException c m)"
    using a by (simp add: admin_create_wallpaper_def insert_one_def Let_def)
  show "fst (seed_sample current_user fresh d) \<noteq> Inl (HTTPException c m)"
    using a seed_loop_no_http[of fresh 0 samples "db_wallpaper d" c m]
    by (auto simp: seed_sample_def split: prod.splits sum.splits)
next
  assume a: "dict_get current_user ''role'' = VStr ''admin''"
    and "new_id \<notin> fst ` set (db_wallpaper d)"
  then show "\<exists>r. fst (admin_create_wallpaper body current_user new_id t_created t_updated d) = Inr r"
    by (simp add: admin_create_wallpaper_def insert_one_def Let_def)
next
  assume a: "dict_get current_user ''role'' = VStr ''admin''"
    and f: "(\<forall>j<4. \<forall>k<4. fst (fresh j) = fst (fresh k) \<longrightarrow> j = k) \<and>
       (\<forall>k<4. fst (fresh k) \<notin> fst ` set (db_wallpaper d))"
  have len: "0 + length samples \<le> 4" by (simp add: samples_def)
  have "fst (seed_loop fresh 0 samples (db_wallpaper d)) = Inr ()"
    using seed_loop_fresh[of 4 fresh 0 samples "db_wallpaper d", OF _ len] f by blast
  then show "fst (seed_sample current_user fresh d) = Inr [(''status'', VStr ''ok'')]"
    using a by (auto simp: seed_sample_def split: prod.splits sum.splits)
qed

theorem admin_gate_witness:
  "dict_get ex_current_pro ''role'' \<noteq> VStr ''admin'' \<and>
   admin_create_wallpaper ex_create ex_current_pro (fst (ex_fresh 0)) 300 300 ex_db2
     = (Inl (HTTPException 403 ''Admin only''), ex_db2) \<and>
   seed_sample ex_current_pro ex_fresh ex_db2 = (Inl (HTTPException 403 ''Admin only''), ex_db2) \<and>
   dict_get [(''role'', VStr ''admin''), (''id'', VStr ''65a1b2c3d4e5f60718293a4b'')] ''role''
     = VStr ''admin'' \<and>
   fst (ex_fresh 0) \<notin> fst ` set (db_wallpaper ex_db2) \<and>
   (\<exists>r. fst (admin_create_wallpaper ex_create
                [(''role'', VStr ''admin''), (''id'', VStr ''65a1b2c3d4e5f60718293a4b'')]
                (fst (ex_fresh 0)) 300 300 ex_db2) = Inr r) \<and>
   fst (seed_sample [(''role'', VStr ''admin''), (''id'', VStr ''65a1b2c3d4e5f60718293a4b'')]
          ex_fresh ex_db2) = Inr [(''status'', VStr ''ok'')]"
proof -
  let ?adm = "[(''role'', VStr ''admin''), (''id'', VStr ''65a1b2c3d4e5f60718293a4b'')]"
  have four: "k < 4 \<longleftrightarrow> k = 0 \<or> k = 1 \<or> k = 2 \<or> k = 3" for k :: nat by arith
  have e0: "fst (ex_fresh 0) = OID ''65a1b2c3d4e5f60718293a50''"
    and e1: "fst (ex_fresh 1) = OID ''65a1b2c3d4e5f60718293a51''"
    and e2: "fst (ex_fresh 2) = OID ''65a1b2c3d4e5f60718293a52''"
    and e3: "fst (ex_fresh 3) = OID ''65a1b2c3d4e5f60718293a53''"
    by (simp_all add: ex_fresh_def)
  have u: "dict_get ex_current_pro ''role'' \<noteq> VStr ''admin''"
    by (simp add: ex_current_pro_def ex_user_pro_def dict_get_def dict_get_default_def)
  have a: "dict_get ?adm ''role'' = VStr ''admin''"
    by (simp add: dict_get_def dict_get_default_def)
  have ids: "fst ` set (db_wallpaper ex_db2) = {OID ''65a1b2c3d4e5f60718293a4c''}"
    by (simp add: ex_db2_def ex_wid_def)
  have f0: "fst (ex_fresh 0) \<notin> fst ` set (db_wallpaper ex_db2)"
    unfolding ids e0 by simp
  have inj: "\<forall>j<4. \<forall>k<4. fst (ex_fresh j) = fst (ex_fresh k) \<longrightarrow> j = k"
    unfolding four using e0 e1 e2 e3 by auto
  have fr: "\<forall>k<4. fst (ex_fresh k) \<notin> fst ` set (db_wallpaper ex_db2)"
    unfolding four ids using e0 e1 e2 e3 by auto
  have r1: "admin_create_wallpaper ex_create ex_current_pro (fst (ex_fresh 0)) 300 300 ex_db2
     = (Inl (HTTPException 403 ''Admin only''), ex_db2)"
    and r2: "seed_sample ex_current_pro ex_fresh ex_db2
     = (Inl (HTTPException 403 ''Admin only''), ex_db2)"
    using admin_gate [of ex_current_pro ex_create "fst (ex_fresh 0)" 300 300 ex_db2 ex_fresh] u
    by blast+
  have r3: "\<exists>r. fst (admin_create_wallpaper ex_create ?adm (fst (ex_fresh 0)) 300 300 ex_db2) = Inr r"
    using admin_gate [of ?adm ex_create "fst (ex_fresh 0)" 300 300 ex_db2 ex_fresh] a f0
    by blast
  have r4: "fst (seed_sample ?adm ex_fresh ex_db2) = Inr [(''status'', VStr ''ok'')]"
    using admin_gate [of ?adm ex_create "fst (ex_fresh 0)" 300 300 ex_db2 ex_fresh] a inj fr
    by blast
  show ?thesis by (intro conjI u r1 r2 a f0 r3 r4)
qed

subsection \<open>The content policy of the listing\<close>

text \<open>
  C7. The item the listing builds for a wallpaper: for a subscribed caller it carries the
  stored \<^verbatim>\<open>image_url\<close> unchanged and \<^verbatim>\<open>watermarked = False\<close>; otherwise it carries
  \<^verbatim>\<open>watermarked = True\<close> and, the stored \<^verbatim>\<open>image_url\<close> being a string \<open>u\<close>, the url
  \<open>u\<close> followed by \<^verbatim>\<open>?wm=1\<close>. Every item of a listing is built this way from a stored
  wallpaper, with the \<^verbatim>\<open>subscribed\<close> flag of the response.
\<close>

theorem content_policy:
  "dict_get (wallpaper_item e True w) ''image_url'' = dict_get w ''image_url'' \<and>
   dict_get (wallpaper_item e True w) ''watermarked'' = VBool False \<and>
   dict_get (wallpaper_item e False w) ''watermarked'' = VBool True \<and>
   (\<forall>u. dict_get w ''image_url'' = VStr u \<longrightarrow>
        dict_get (wallpaper_item e False w) ''image_url'' = VStr (u @ ''?wm=1'')) \<and>
   (\<forall>r. list_wallpapers e cat limit authorization now d = Inr r \<longrightarrow>
        (\<forall>item \<in> set (items r). \<exists>s \<in> set (db_wallpaper d).
            item = wallpaper_item e (subscribed r) (as_doc s)))"
proof (intro conjI allI impI ballI)
  fix r item
  assume r: "list_wallpapers e cat limit authorization now d = Inr r"
    and i: "item \<in> set (items r)"
  let ?q = "(case cat of None \<Rightarrow> [] | Some c \<Rightarrow> if c = [] then [] else [(''category'', VStr c)])"
  from r i obtain s where "s \<in> set (cursor_limit limit (sort_desc (filter (matches ?q) (db_wallpaper d))))"
    and "item = wallpaper_item e (subscribed r) (as_doc s)"
    by (auto simp: list_wallpapers_def Let_def)
  moreover have "set (cursor_limit limit (sort_desc (filter (matches ?q) (db_wallpaper d)))) \<subseteq> set (db_wallpaper d)"
    using set_cursor_limit[of limit] by (fastforce simp: set_sort_desc)
  ultimately show "\<exists>s \<in> set (db_wallpaper d). item = wallpaper_item e (subscribed r) (as_doc s)"
    by blast
qed (simp_all add: wallpaper_item_def dict_get_def dict_get_default_def str_val_def)

lemma ex_listing_anonymous:
  "list_wallpapers ex_env None 50 None 1000 ex_db2
     = Inr \<lparr>items = [wallpaper_item ex_env False (as_doc (ex_wid, ex_wallpaper))],
            subscribed = False\<rparr>"
  by (simp add: list_wallpapers_def ex_db2_def matches_def sort_desc_def cursor_limit_def)

theorem content_policy_witness:
  "dict_get (as_doc (ex_wid, ex_wallpaper)) ''image_url'' = VStr ''https://img.example/forest.jpg'' \<and>
   dict_get (wallpaper_item ex_env False (as_doc (ex_wid, ex_wallpaper))) ''image_url''
     = VStr ''https://img.example/forest.jpg?wm=1'' \<and>
   dict_get (wallpaper_item ex_env True (as_doc (ex_wid, ex_wallpaper))) ''image_url''
     = VStr ''https://img.example/forest.jpg'' \<and>
   list_wallpapers ex_env None 50 None 1000 ex_db2
     = Inr \<lparr>items = [wallpaper_item ex_env False (as_doc (ex_wid, ex_wallpaper))],
            subscribed = False\<rparr> \<and>
   (\<exists>s \<in> set (db_wallpaper ex_db2).
      wallpaper_item ex_env False (as_doc (ex_wid, ex_wallpaper))
        = wallpaper_item ex_env False (as_doc s))"
proof -
  let ?w = "as_doc (ex_wid, ex_wallpaper)"
  let ?r = "\<lparr>items = [wallpaper_item ex_env False ?w], subscribed = False\<rparr>"
  note cp = content_policy [of ex_env ?w None 50 None 1000 ex_db2]
  have i: "dict_get ?w ''image_url'' = VStr ''https://img.example/forest.jpg''"
    by (simp add: ex_wallpaper_def dict_get_def dict_get_default_def)
  have l: "list_wallpapers ex_env None 50 None 1000 ex_db2 = Inr ?r"
    by (rule ex_listing_anonymous)
  have a: "dict_get (wallpaper_item ex_env False ?w) ''image_url''
             = VStr (''https://img.example/forest.jpg'' @ ''?wm=1'')"
    using cp i by blast
  have b: "dict_get (wallpaper_item ex_env True ?w) ''image_url''
             = VStr ''https://img.example/forest.jpg''"
    using cp i by simp
  have "\<forall>item \<in> set (items ?r). \<exists>s \<in> set (db_wallpaper ex_db2).
            item = wallpaper_item ex_env (subscribed ?r) (as_doc s)"
    using cp l by blast
  then have c: "\<exists>s \<in> set (db_wallpaper ex_db2).
      wallpaper_item ex_env False ?w = wallpaper_item ex_env False (as_doc s)"
    by simp
  from a have a': "dict_get (wallpaper_item ex_env False ?w) ''image_url''
             = VStr ''https://img.example/forest.jpg?wm=1''" by simp
  show ?thesis by (intro conjI i a' b l c)
qed

subsection \<open>Requests that carry no valid token\<close>

text \<open>The example codec and headers, evaluated.\<close>

lemma ex_env_simps:
  "SECRET_KEY ex_env = ''supersecret-key-change''"
  "jwt_decode ex_env = book_decode ex_book"
  "jwt_encode ex_env = book_encode ex_book"
  by (simp_all add: ex_env_def SECRET_KEY_def)

lemma ex_decode_garbage:
  "jwt_decode ex_env ''garbage'' (SECRET_KEY ex_env) [ALGORITHM] 1000
     = Inl (JWTError ''Signature verification failed.'')"
  by (simp add: ex_env_simps book_decode_def ex_book_def)

lemma ex_decode_forged:
  "jwt_decode ex_env ''tok.forged'' (SECRET_KEY ex_env) [ALGORITHM] 1000
     = Inl (JWTError ''Signature verification failed.'')"
  by (simp add: ex_env_simps book_decode_def ex_book_def)

lemma ex_decode_expired:
  "jwt_decode ex_env ''tok.reg.100'' (SECRET_KEY ex_env) [ALGORITHM] 700000
     = Inl (JWTError ''Signature has expired.'')"
  by (simp add: ex_env_simps book_decode_def ex_book_def jose_validate_def
                jose_validate_exp_def jose_validate_sub_def dict_get_def dict_get_default_def)

lemma ex_decode_nosub:
  "jwt_decode ex_env ''tok.nosub'' (SECRET_KEY ex_env) [ALGORITHM] 1000
     = Inr [(''exp'', VInt 3203800)]"
  by (simp add: ex_env_simps book_decode_def ex_book_def jose_validate_def
                jose_validate_exp_def jose_validate_sub_def dict_get_def dict_get_default_def)

lemma ex_partition:
  "partition_space ''Basic dXNlcjpwdw=='' = (''Basic'', '' '', ''dXNlcjpwdw=='')"
  "partition_space ''Bearer garbage'' = (''Bearer'', '' '', ''garbage'')"
  "partition_space ''Bearer tok.forged'' = (''Bearer'', '' '', ''tok.forged'')"
  "partition_space ''bearer tok.reg.100'' = (''bearer'', '' '', ''tok.reg.100'')"
  "partition_space ''Bearer tok.nosub'' = (''Bearer'', '' '', ''tok.nosub'')"
  "partition_space ''Bearer'' = (''Bearer'', [], [])"
  by (simp_all add: partition_space_def)

lemma ex_lower:
  "lower ''Basic'' = ''basic''" "lower ''Bearer'' = ''bearer''" "lower ''bearer'' = ''bearer''"
  by (simp_all add: lower_def lower_char_def)

text \<open>
  The branches of \<open>get_current_user\<close> that answer with an \<^verbatim>\<open>HTTPException\<close> of status
  401 before any user is looked up: a missing or empty header (\<^verbatim>\<open>Not authenticated\<close>);
  a header whose scheme is not \<^verbatim>\<open>bearer\<close> or that has no token
  (\<^verbatim>\<open>Invalid auth header\<close>); a token the library rejects with a \<^verbatim>\<open>JWTError\<close>, as it does for a malformed token, a signature that does
  not match and an elapsed expiry (\<^verbatim>\<open>Invalid token\<close>); and a decoded payload without
  subject (\<^verbatim>\<open>Invalid token\<close>).
\<close>

lemma get_current_user_unauthorized:
  "(authorization = None \<or> authorization = Some [] \<longrightarrow>
      get_current_user e d authorization now = Inl (HTTPException 401 ''Not authenticated'')) \<and>
   (\<forall>a. authorization = Some a \<and> a \<noteq> [] \<and>
        (lower (fst (partition_space a)) \<noteq> ''bearer'' \<or> snd (snd (partition_space a)) = []) \<longrightarrow>
      get_current_user e d authorization now = Inl (HTTPException 401 ''Invalid auth header'')) \<and>
   (\<forall>a m. authorization = Some a \<and> a \<noteq> [] \<and>
        lower (fst (partition_space a)) = ''bearer'' \<and> snd (snd (partition_space a)) \<noteq> [] \<and>
        jwt_decode e (snd (snd (partition_space a))) (SECRET_KEY e) [ALGORITHM] now
          = Inl (JWTError m) \<longrightarrow>
      get_current_user e d authorization now = Inl (HTTPException 401 ''Invalid token'')) \<and>
   (\<forall>a payload. authorization = Some a \<and> a \<noteq> [] \<and>
        lower (fst (partition_space a)) = ''bearer'' \<and> snd (snd (partition_space a)) \<noteq> [] \<and>
        jwt_decode e (snd (snd (partition_space a))) (SECRET_KEY e) [ALGORITHM] now
          = Inr payload \<and>
        dict_get payload ''sub'' = VNone \<longrightarrow>
      get_current_user e d authorization now = Inl (HTTPException 401 ''Invalid token''))"
  by (auto simp: get_current_user_def get_current_user_id_def split: prod.splits)

lemma ex_unauthorized:
  "get_current_user ex_env ex_db2 None 1000 = Inl (HTTPException 401 ''Not authenticated'') \<and>
   get_current_user ex_env ex_db2 (Some ''Basic dXNlcjpwdw=='') 1000
     = Inl (HTTPException 401 ''Invalid auth header'') \<and>
   get_current_user ex_env ex_db2 (Some ''Bearer'') 1000
     = Inl (HTTPException 401 ''Invalid auth header'') \<and>
   get_current_user ex_env ex_db2 (Some ''Bearer garbage'') 1000
     = Inl (HTTPException 401 ''Invalid token'') \<and>
   get_current_user ex_env ex_db2 (Some ''Bearer tok.forged'') 1000
     = Inl (HTTPException 401 ''Invalid token'') \<and>
   get_current_user ex_env ex_db2 (Some ''bearer tok.reg.100'') 700000
     = Inl (HTTPException 401 ''Invalid token'') \<and>
   get_current_user ex_env ex_db2 (Some ''Bearer tok.nosub'') 1000
     = Inl (HTTPException 401 ''Invalid token'')"
proof -
  have n: "dict_get [(''exp'', VInt 3203800)] ''sub'' = VNone"
    by (simp add: dict_get_def dict_get_default_def)
  have 1: "get_current_user ex_env ex_db2 None 1000
             = Inl (HTTPException 401 ''Not authenticated'')"
    using get_current_user_unauthorized [of None ex_env ex_db2 1000] by simp
  have 2: "get_current_user ex_env ex_db2 (Some ''Basic dXNlcjpwdw=='') 1000
             = Inl (HTTPException 401 ''Invalid auth header'')"
    using get_current_user_unauthorized [of "Some ''Basic dXNlcjpwdw==''" ex_env ex_db2 1000]
    by (simp add: ex_partition ex_lower)
  have 3: "get_current_user ex_env ex_db2 (Some ''Bearer'') 1000
             = Inl (HTTPException 401 ''Invalid auth header'')"
    using get_current_user_unauthorized [of "Some ''Bearer''" ex_env ex_db2 1000]
    by (simp add: ex_partition ex_lower)
  have 4: "get_current_user ex_env ex_db2 (Some ''Bearer garbage'') 1000
             = Inl (HTTPException 401 ''Invalid token'')"
    using get_current_user_unauthorized [of "Some ''Bearer garbage''" ex_env ex_db2 1000]
      ex_decode_garbage
    by (simp add: ex_partition ex_lower)
  have 5: "get_current_user ex_env ex_db2 (Some ''Bearer tok.forged'') 1000
             = Inl (HTTPException 401 ''Invalid token'')"
    using get_current_user_unauthorized [of "Some ''Bearer tok.forged''" ex_env ex_db2 1000]
      ex_decode_forged
    by (simp add: ex_partition ex_lower)
  have 6: "get_current_user ex_env ex_db2 (Some ''bearer tok.reg.100'') 700000
             = Inl (HTTPException 401 ''Invalid token'')"
    using get_current_user_unauthorized [of "Some ''bearer tok.reg.100''" ex_env ex_db2 700000]
      ex_decode_expired
    by (simp add: ex_partition ex_lower)
  have 7: "get_current_user ex_env ex_db2 (Some ''Bearer tok.nosub'') 1000
             = Inl (HTTPException 401 ''Invalid token'')"
    using get_current_user_unauthorized [of "Some ''Bearer tok.nosub''" ex_env ex_db2 1000]
      ex_decode_nosub n
    by (simp add: ex_partition ex_lower)
  show ?thesis by (intro conjI 1 2 3 4 5 6 7)
qed

lemma list_wallpapers_auth_rejected:
  "jwt_decode e (snd (snd (partition_space a))) (SECRET_KEY e) [ALGORITHM] now = Inl x \<Longrightarrow>
     list_wallpapers_auth e d a now = Inl x"
  by (cases "partition_space a") (simp add: list_wallpapers_auth_def)

lemma ex_listing_rejected:
  assumes "jwt_decode ex_env (snd (snd (partition_space a))) (SECRET_KEY ex_env) [ALGORITHM] now
             = Inl x"
  shows "list_wallpapers ex_env None 50 (Some a) now ex_db2
     = Inr \<lparr>items = [wallpaper_item ex_env False (as_doc (ex_wid, ex_wallpaper))],
            subscribed = False\<rparr>"
proof -
  have a: "list_wallpapers_auth ex_env ex_db2 a now = Inl x"
    by (rule list_wallpapers_auth_rejected [OF assms])
  have w: "db_wallpaper ex_db2 = [(ex_wid, ex_wallpaper)]" by (simp add: ex_db2_def)
  show ?thesis
    unfolding list_wallpapers_def Let_def w
    using a by (simp add: matches_def sort_desc_def cursor_limit_def)
qed

text \<open>
  C6. \<open>list_wallpapers\<close> always returns a response, whatever the header: it has no error
  outcome, so no 401. When the header is missing or empty, or the library raises any
  exception on the token (malformed, expired, wrong signature), the caller counts as
  anonymous: \<^verbatim>\<open>subscribed\<close> is false in the response and every item is watermarked.
\<close>

theorem list_wallpapers_anonymous:
  "(\<exists>r. list_wallpapers e cat limit authorization now d = Inr r) \<and>
   (authorization = None \<or> authorization = Some [] \<or>
    (\<exists>a x. authorization = Some a \<and>
       jwt_decode e (snd (snd (partition_space a))) (SECRET_KEY e) [ALGORITHM] now = Inl x) \<longrightarrow>
    (\<forall>r. list_wallpapers e cat limit authorization now d = Inr r \<longrightarrow>
       subscribed r = False \<and>
       (\<forall>item \<in> set (items r). dict_get item ''watermarked'' = VBool True)))"
proof (intro conjI impI allI)
  show "\<exists>r. list_wallpapers e cat limit authorization now d = Inr r"
    by (simp add: list_wallpapers_def Let_def)
next
  fix r
  assume anon: "authorization = None \<or> authorization = Some [] \<or>
    (\<exists>a x. authorization = Some a \<and>
       jwt_decode e (snd (snd (partition_space a))) (SECRET_KEY e) [ALGORITHM] now = Inl x)"
    and r: "list_wallpapers e cat limit authorization now d = Inr r"
  define S where "S =
      (case authorization of
         None \<Rightarrow> False
       | Some a \<Rightarrow>
           if a = [] then False
           else (case list_wallpapers_auth e d a now of Inl x \<Rightarrow> False | Inr b \<Rightarrow> b))"
  define ws where "ws = cursor_limit limit (sort_desc (filter (matches
      (case cat of None \<Rightarrow> [] | Some c \<Rightarrow> if c = [] then [] else [(''category'', VStr c)]))
      (db_wallpaper d)))"
  have "list_wallpapers e cat limit authorization now d
          = Inr \<lparr>items = map (\<lambda>w. wallpaper_item e S (as_doc w)) ws, subscribed = S\<rparr>"
    unfolding list_wallpapers_def Let_def S_def ws_def by simp
  with r have rr: "r = \<lparr>items = map (\<lambda>w. wallpaper_item e S (as_doc w)) ws, subscribed = S\<rparr>"
    by simp
  have f: "S = False"
  proof -
    consider "authorization = None" | "authorization = Some []"
      | a x where "authorization = Some a"
          "jwt_decode e (snd (snd (partition_space a))) (SECRET_KEY e) [ALGORITHM] now = Inl x"
      using anon by blast
    then show ?thesis
    proof cases
      case 1
      then show ?thesis by (simp add: S_def)
    next
      case 2
      then show ?thesis by (simp add: S_def)
    next
      case 3
      then show ?thesis using list_wallpapers_auth_rejected [of e a now x d] by (simp add: S_def)
    qed
  qed
  show "subscribed r = False" using rr f by simp
  show "\<forall>item \<in> set (items r). dict_get item ''watermarked'' = VBool True"
    using rr f by (auto simp: wallpaper_item_def dict_get_def dict_get_default_def)
qed

theorem list_wallpapers_anonymous_witness:
  "jwt_decode ex_env (snd (snd (partition_space ''Bearer garbage''))) (SECRET_KEY ex_env)
      [ALGORITHM] 1000 = Inl (JWTError ''Signature verification failed.'') \<and>
   list_wallpapers ex_env None 50 (Some ''Bearer garbage'') 1000 ex_db2
     = Inr \<lparr>items = [wallpaper_item ex_env False (as_doc (ex_wid, ex_wallpaper))],
            subscribed = False\<rparr> \<and>
   jwt_decode ex_env (snd (snd (partition_space ''bearer tok.reg.100''))) (SECRET_KEY ex_env)
      [ALGORITHM] 700000 = Inl (JWTError ''Signature has expired.'') \<and>
   list_wallpapers ex_env None 50 (Some ''bearer tok.reg.100'') 700000 ex_db2
     = Inr \<lparr>items = [wallpaper_item ex_env False (as_doc (ex_wid, ex_wallpaper))],
            subscribed = False\<rparr> \<and>
   list_wallpapers ex_env None 50 None 1000 ex_db2
     = Inr \<lparr>items = [wallpaper_item ex_env False (as_doc (ex_wid, ex_wallpaper))],
            subscribed = False\<rparr> \<and>
   subscribed \<lparr>items = [wallpaper_item ex_env False (as_doc (ex_wid, ex_wallpaper))],
               subscribed = False\<rparr> = False \<and>
   dict_get (wallpaper_item ex_env False (as_doc (ex_wid, ex_wallpaper))) ''watermarked''
     = VBool True"
proof -
  let ?r = "\<lparr>items = [wallpaper_item ex_env False (as_doc (ex_wid, ex_wallpaper))],
             subscribed = False\<rparr>"
  have g: "jwt_decode ex_env (snd (snd (partition_space ''Bearer garbage''))) (SECRET_KEY ex_env)
      [ALGORITHM] 1000 = Inl (JWTError ''Signature verification failed.'')"
    using ex_decode_garbage by (simp add: ex_partition)
  have x: "jwt_decode ex_env (snd (snd (partition_space ''bearer tok.reg.100''))) (SECRET_KEY ex_env)
      [ALGORITHM] 700000 = Inl (JWTError ''Signature has expired.'')"
    using ex_decode_expired by (simp add: ex_partition)
  have lg: "list_wallpapers ex_env None 50 (Some ''Bearer garbage'') 1000 ex_db2 = Inr ?r"
    by (rule ex_listing_rejected [OF g])
  have lx: "list_wallpapers ex_env None 50 (Some ''bearer tok.reg.100'') 700000 ex_db2 = Inr ?r"
    by (rule ex_listing_rejected [OF x])
  note a = list_wallpapers_anonymous [of ex_env None 50 "Some ''Bearer garbage''" 1000 ex_db2]
  have "subscribed ?r = False \<and>
        (\<forall>item \<in> set (items ?r). dict_get item ''watermarked'' = VBool True)"
    using a g lg by blast
  then have s: "subscribed ?r = False"
    and w: "dict_get (wallpaper_item ex_env False (as_doc (ex_wid, ex_wallpaper))) ''watermarked''
              = VBool True"
    by simp_all
  show ?thesis by (intro conjI g lg x lx ex_listing_anonymous s w)
qed

subsection \<open>The current user\<close>

lemma lower_hex_cases:
  "is_lower_hex c \<longleftrightarrow> c = CHR ''0'' \<or> c = CHR ''1'' \<or> c = CHR ''2'' \<or> c = CHR ''3'' \<or>
     c = CHR ''4'' \<or> c = CHR ''5'' \<or> c = CHR ''6'' \<or> c = CHR ''7'' \<or> c = CHR ''8'' \<or>
     c = CHR ''9'' \<or> c = CHR ''a'' \<or> c = CHR ''b'' \<or> c = CHR ''c'' \<or> c = CHR ''d'' \<or>
     c = CHR ''e'' \<or> c = CHR ''f''"
  by (simp add: is_lower_hex_def)

lemma lower_hex_not_space: "is_lower_hex c \<Longrightarrow> \<not> is_space c"
  unfolding lower_hex_cases by (elim disjE; simp add: is_space_def)

lemma lower_hex_is_hex: "is_lower_hex c \<Longrightarrow> is_hex c"
  unfolding lower_hex_cases by (elim disjE; simp add: is_hex_def)

lemma lower_hex_lower: "is_lower_hex c \<Longrightarrow> lower_char c = c"
  unfolding lower_hex_cases by (elim disjE; simp add: lower_char_def)

lemma fromhex_lower_hex:
  "list_all is_lower_hex h \<Longrightarrow> even (length h) \<Longrightarrow> fromhex h = Some h"
proof (induction h rule: fromhex.induct)
  case 1
  then show ?case by simp
next
  case (2 c)
  then show ?case by simp
next
  case (3 c d r)
  have c: "\<not> is_space c" "is_hex c" "lower_char c = c"
    using 3 by (simp_all add: lower_hex_not_space lower_hex_is_hex lower_hex_lower)
  have d: "is_hex d" "lower_char d = d"
    using 3 by (simp_all add: lower_hex_is_hex lower_hex_lower)
  have "fromhex r = Some r" using 3 c d by simp
  then show ?case using c d by simp
qed

lemma ObjectId_str_roundtrip:
  "valid_oid i \<Longrightarrow> ObjectId_new (VStr (str_ObjectId i)) = Inr i"
  by (cases i) (simp add: fromhex_lower_hex)

lemma load_user_found:
  assumes "ObjectId_new uid = Inr i" and "map_of (db_user d) i = Some u"
  shows "load_user e d uid
           = Inr (AList.delete ''_id'' (AList.update ''id'' (VStr (str_ObjectId i)) (as_doc (i, u))))"
  using assms by (simp add: load_user_def find_one_id dict_getitem_def str_val_def)

lemma get_current_user_id_Inr:
  assumes "get_current_user_id e authorization now = Inr uid"
  shows "\<exists>a payload. authorization = Some a \<and>
           lower (fst (partition_space a)) = ''bearer'' \<and>
           jwt_decode e (snd (snd (partition_space a))) (SECRET_KEY e) [ALGORITHM] now
             = Inr payload \<and>
           dict_get payload ''sub'' = uid"
  using assms
  by (auto simp: get_current_user_id_def split: option.splits if_splits prod.splits sum.splits
           val.splits)

lemma get_current_user_Inr:
  assumes "get_current_user e d a now = Inr cu"
  shows "\<exists>uid i u. get_current_user_id e a now = Inr uid \<and> ObjectId_new uid = Inr i \<and>
           map_of (db_user d) i = Some u \<and>
           cu = AList.delete ''_id'' (AList.update ''id'' (VStr (str_ObjectId i)) (as_doc (i, u)))"
  using assms
  by (auto simp: get_current_user_def load_user_def find_one_id dict_getitem_def str_val_def
           split: sum.splits option.splits)

lemma current_user_fields:
  assumes "cu = AList.delete ''_id'' (AList.update ''id'' (VStr s) (as_doc (i, u)))"
  shows "map_of cu ''id'' = Some (VStr s)" and "map_of cu ''_id'' = None"
    and "k \<noteq> ''id'' \<Longrightarrow> k \<noteq> ''_id'' \<Longrightarrow> map_of cu k = map_of u k"
  using assms by (simp_all add: delete_conv' update_conv')

lemma partition_bearer:
  "partition_space (CHR ''B'' # CHR ''e'' # CHR ''a'' # CHR ''r'' # CHR ''e'' # CHR ''r''
                      # CHR '' '' # token) = (''Bearer'', '' '', token)"
  by (simp add: partition_space_def)

lemma lower_Bearer: "lower ''Bearer'' = ''bearer''"
  by (simp add: lower_def lower_char_def)

lemma ex_uid_new: "ObjectId_new (VStr ''65a1b2c3d4e5f60718293a4b'') = Inr ex_uid"
  by (simp add: ex_uid_def is_space_def is_hex_def lower_char_def)

lemma ex_uid_valid: "valid_oid ex_uid"
  by (simp add: ex_uid_def is_lower_hex_def)

lemma ex_roundtrip:
  "jose_roundtrip ex_env
     [(''sub'', VStr ''65a1b2c3d4e5f60718293a4b''), (''exp'', VDatetime (100 + 7 * 86400))]"
  by (simp add: jose_roundtrip_def ex_env_simps book_encode_def book_decode_def ex_book_def
                jose_payload_def)

lemma ex_decode_login:
  "jwt_decode ex_env ''tok.login.2599000'' (SECRET_KEY ex_env) [ALGORITHM] 2600000
     = Inr [(''sub'', VStr ''65a1b2c3d4e5f60718293a4b''), (''exp'', VInt 3203800)]"
  by (simp add: ex_env_simps book_decode_def ex_book_def jose_validate_def
                jose_validate_exp_def jose_validate_sub_def dict_get_def dict_get_default_def)

lemma ex_login_payload:
  "jwt_decode ex_env (snd (snd (partition_space ''Bearer tok.login.2599000'')))
      (SECRET_KEY ex_env) [ALGORITHM] 2600000
     = Inr [(''sub'', VStr ''65a1b2c3d4e5f60718293a4b''), (''exp'', VInt 3203800)]"
  using ex_decode_login by (simp add: partition_bearer)

lemma ex_current_user_pro:
  "get_current_user ex_env ex_db2 (Some ''Bearer tok.login.2599000'') 2600000
     = Inr ex_current_pro"
proof -
  have id: "get_current_user_id ex_env (Some ''Bearer tok.login.2599000'') 2600000
              = Inr (VStr ''65a1b2c3d4e5f60718293a4b'')"
    using ex_decode_login
    by (simp add: get_current_user_id_def partition_bearer lower_Bearer dict_get_def
                  dict_get_default_def)
  have u: "map_of (db_user ex_db2) ex_uid = Some ex_user_pro"
    by (simp add: ex_db2_def)
  have "load_user ex_env ex_db2 (VStr ''65a1b2c3d4e5f60718293a4b'')
          = Inr (AList.delete ''_id''
                  (AList.update ''id'' (VStr (str_ObjectId ex_uid)) (as_doc (ex_uid, ex_user_pro))))"
    by (rule load_user_found [OF ex_uid_new u])
  also have "AList.delete ''_id''
               (AList.update ''id'' (VStr (str_ObjectId ex_uid)) (as_doc (ex_uid, ex_user_pro)))
             = ex_current_pro"
    by (simp add: ex_current_pro_def ex_user_pro_def ex_uid_def)
  finally show ?thesis using id by (simp add: get_current_user_def)
qed

text \<open>
  C3, as the code has it. For an authenticated request \<open>me\<close> returns the record of the
  user the token names: the token of the header decodes to a payload whose \<^verbatim>\<open>sub\<close> is the
  text of an ObjectId \<open>i\<close>, a user \<open>u\<close> is stored under \<open>i\<close>, and the response is \<open>u\<close> with
  the field \<^verbatim>\<open>id\<close> holding the text of \<open>i\<close>, without \<^verbatim>\<open>_id\<close>, and with every other
  stored field as it is stored, the password hash among them.
\<close>

theorem me_returns_stored_record:
  assumes "get_current_user e d authorization now = Inr current_user"
  shows "\<exists>a payload i u.
           authorization = Some a \<and>
           jwt_decode e (snd (snd (partition_space a))) (SECRET_KEY e) [ALGORITHM] now
             = Inr payload \<and>
           ObjectId_new (dict_get payload ''sub'') = Inr i \<and>
           map_of (db_user d) i = Some u \<and>
           me current_user = Inr current_user \<and>
           current_user
             = AList.delete ''_id'' (AList.update ''id'' (VStr (str_ObjectId i)) (as_doc (i, u))) \<and>
           map_of current_user ''id'' = Some (VStr (str_ObjectId i)) \<and>
           map_of current_user ''_id'' = None \<and>
           (\<forall>k. k \<noteq> ''id'' \<and> k \<noteq> ''_id'' \<longrightarrow> map_of current_user k = map_of u k)"
proof -
  obtain uid i u where id: "get_current_user_id e authorization now = Inr uid"
    and i: "ObjectId_new uid = Inr i"
    and u: "map_of (db_user d) i = Some u"
    and cu: "current_user
               = AList.delete ''_id'' (AList.update ''id'' (VStr (str_ObjectId i)) (as_doc (i, u)))"
    using get_current_user_Inr [OF assms] by blast
  obtain a payload where a: "authorization = Some a"
    and p: "jwt_decode e (snd (snd (partition_space a))) (SECRET_KEY e) [ALGORITHM] now
              = Inr payload"
    and s: "dict_get payload ''sub'' = uid"
    using get_current_user_id_Inr [OF id] by blast
  have f: "map_of current_user ''id'' = Some (VStr (str_ObjectId i))"
    "map_of current_user ''_id'' = None"
    "\<forall>k. k \<noteq> ''id'' \<and> k \<noteq> ''_id'' \<longrightarrow> map_of current_user k = map_of u k"
    using current_user_fields [OF cu] by blast+
  have m: "me current_user = Inr current_user" by (simp add: me_def)
  from i s have i': "ObjectId_new (dict_get payload ''sub'') = Inr i" by simp
  show ?thesis
    by (intro exI[of _ a] exI[of _ payload] exI[of _ i] exI[of _ u] conjI a p i' u m cu f)
qed

theorem me_returns_stored_record_witness:
  "get_current_user ex_env ex_db2 (Some ''Bearer tok.login.2599000'') 2600000
     = Inr ex_current_pro \<and>
   jwt_decode ex_env (snd (snd (partition_space ''Bearer tok.login.2599000'')))
      (SECRET_KEY ex_env) [ALGORITHM] 2600000
     = Inr [(''sub'', VStr ''65a1b2c3d4e5f60718293a4b''), (''exp'', VInt 3203800)] \<and>
   ObjectId_new (VStr ''65a1b2c3d4e5f60718293a4b'') = Inr ex_uid \<and>
   map_of (db_user ex_db2) ex_uid = Some ex_user_pro \<and>
   me ex_current_pro = Inr ex_current_pro \<and>
   map_of ex_current_pro ''id'' = Some (VStr ''65a1b2c3d4e5f60718293a4b'') \<and>
   map_of ex_current_pro ''_id'' = None \<and>
   map_of ex_current_pro ''email'' = map_of ex_user_pro ''email'' \<and>
   map_of ex_current_pro ''plan'' = map_of ex_user_pro ''plan'' \<and>
   map_of ex_current_pro ''password_hash'' = map_of ex_user_pro ''password_hash''"
proof -
  obtain a payload i u where a: "Some ''Bearer tok.login.2599000'' = Some a"
    and p: "jwt_decode ex_env (snd (snd (partition_space a))) (SECRET_KEY ex_env) [ALGORITHM]
              2600000 = Inr payload"
    and i: "ObjectId_new (dict_get payload ''sub'') = Inr i"
    and u: "map_of (db_user ex_db2) i = Some u"
    and m: "me ex_current_pro = Inr ex_current_pro"
    and f: "map_of ex_current_pro ''id'' = Some (VStr (str_ObjectId i))"
      "map_of ex_current_pro ''_id'' = None"
      "\<forall>k. k \<noteq> ''id'' \<and> k \<noteq> ''_id'' \<longrightarrow> map_of ex_current_pro k = map_of u k"
    using me_returns_stored_record [OF ex_current_user_pro]
    by (elim exE conjE) (rule that; assumption)
  from a have a': "a = ''Bearer tok.login.2599000''" by simp
  have pl: "payload = [(''sub'', VStr ''65a1b2c3d4e5f60718293a4b''), (''exp'', VInt 3203800)]"
    using p ex_login_payload unfolding a' by simp
  have s: "dict_get payload ''sub'' = VStr ''65a1b2c3d4e5f60718293a4b''"
    unfolding pl by (simp add: dict_get_def dict_get_default_def)
  have ie: "i = ex_uid" using i ex_uid_new unfolding s by simp
  have ue: "u = ex_user_pro" using u unfolding ie by (simp add: ex_db2_def)
  have k1: "map_of ex_current_pro ''email'' = map_of ex_user_pro ''email''"
    using f(3) unfolding ue by simp
  have k2: "map_of ex_current_pro ''plan'' = map_of ex_user_pro ''plan''"
    using f(3) unfolding ue by simp
  have k3: "map_of ex_current_pro ''password_hash'' = map_of ex_user_pro ''password_hash''"
    using f(3) unfolding ue by simp
  have id: "map_of ex_current_pro ''id'' = Some (VStr ''65a1b2c3d4e5f60718293a4b'')"
    using f(1) unfolding ie by (simp add: ex_uid_def)
  have us: "map_of (db_user ex_db2) ex_uid = Some ex_user_pro" using u unfolding ie ue .
  show ?thesis
    by (intro conjI ex_current_user_pro ex_login_payload ex_uid_new us m id f(2) k1 k2 k3)
qed

text \<open>
  The claim as stated promises a response without the password hash. The record of a
  registered user holds \<^verbatim>\<open>password_hash\<close>, and nothing removes it on the way out.
\<close>

theorem me_password_hash_counterexample:
  "get_current_user ex_env ex_db2 (Some ''Bearer tok.login.2599000'') 2600000
     = Inr ex_current_pro \<and>
   me ex_current_pro = Inr ex_current_pro \<and>
   map_of ex_current_pro ''password_hash'' = Some (VStr ''$2b$12$s3cret'')"
  using ex_current_user_pro
  by (simp add: me_def ex_current_pro_def ex_user_pro_def)

text \<open>
  C9. A token issued for the subject \<open>uid\<close> at time \<open>t\<close> is the encoding of the claims
  \<^verbatim>\<open>sub = uid\<close> and \<^verbatim>\<open>exp = t + 7 days\<close>. Where the library round-trips these claims,
  verifying the token at any time \<open>t'\<close> up to \<open>t + 7 days\<close> (so also at once) gives back
  \<open>uid\<close>, and \<open>get_current_user\<close> returns the user whose id prints as \<open>uid\<close>.
\<close>

theorem issue_verify_roundtrip:
  assumes rt: "jose_roundtrip e [(''sub'', VStr uid), (''exp'', VDatetime (t + 7 * 86400))]"
    and t': "t' \<le> t + 7 * 86400"
  shows "create_access_token e [(''sub'', VStr uid)] None t
           = jwt_encode e [(''sub'', VStr uid), (''exp'', VDatetime (t + 7 * 86400))]
               (SECRET_KEY e) ALGORITHM \<and>
         jwt_decode e (create_access_token e [(''sub'', VStr uid)] None t)
               (SECRET_KEY e) [ALGORITHM] t'
           = Inr [(''sub'', VStr uid), (''exp'', VInt (t + 7 * 86400))] \<and>
         get_current_user_id e
             (Some (''Bearer '' @ create_access_token e [(''sub'', VStr uid)] None t)) t'
           = Inr (VStr uid) \<and>
         (\<forall>i u. valid_oid i \<and> uid = str_ObjectId i \<and> map_of (db_user d) i = Some u \<longrightarrow>
            (\<exists>cu. get_current_user e d
                     (Some (''Bearer '' @ create_access_token e [(''sub'', VStr uid)] None t)) t'
                     = Inr cu \<and>
                   dict_get cu ''id'' = VStr uid))"
proof -
  let ?claims = "[(''sub'', VStr uid), (''exp'', VDatetime (t + 7 * 86400))]"
  let ?tok = "create_access_token e [(''sub'', VStr uid)] None t"
  have tok: "?tok = jwt_encode e ?claims (SECRET_KEY e) ALGORITHM"
    by (simp add: create_access_token_def ACCESS_TOKEN_EXPIRE_MINUTES_def timedelta_minutes_def)
  have ne: "?tok \<noteq> []" using rt tok by (simp add: jose_roundtrip_def)
  have "jwt_decode e ?tok (SECRET_KEY e) [ALGORITHM] t' = jose_validate (jose_payload ?claims) t'"
    using rt tok by (simp add: jose_roundtrip_def)
  then have dec: "jwt_decode e ?tok (SECRET_KEY e) [ALGORITHM] t'
               = Inr [(''sub'', VStr uid), (''exp'', VInt (t + 7 * 86400))]"
    using t'
    by (simp add: jose_payload_def jose_validate_def jose_validate_exp_def
                  jose_validate_sub_def dict_get_def dict_get_default_def)
  have sub: "dict_get [(''sub'', VStr uid), (''exp'', VInt (t + 7 * 86400))] ''sub'' = VStr uid"
    by (simp add: dict_get_def dict_get_default_def)
  have id: "get_current_user_id e (Some (''Bearer '' @ ?tok)) t' = Inr (VStr uid)"
    using ne dec sub
    by (simp add: get_current_user_id_def partition_bearer lower_Bearer)
  have usr: "\<exists>cu. get_current_user e d (Some (''Bearer '' @ ?tok)) t' = Inr cu \<and>
                  dict_get cu ''id'' = VStr uid"
    if "valid_oid i \<and> uid = str_ObjectId i \<and> map_of (db_user d) i = Some u" for i u
  proof -
    have o: "ObjectId_new (VStr uid) = Inr i" using that ObjectId_str_roundtrip by simp
    have "load_user e d (VStr uid)
            = Inr (AList.delete ''_id'' (AList.update ''id'' (VStr (str_ObjectId i)) (as_doc (i, u))))"
      using load_user_found [OF o] that by simp
    moreover have "dict_get (AList.delete ''_id''
                     (AList.update ''id'' (VStr (str_ObjectId i)) (as_doc (i, u)))) ''id''
                   = VStr uid"
      using that by (simp add: dict_get_def dict_get_default_def delete_conv' update_conv')
    ultimately show ?thesis using id by (simp only: get_current_user_def sum.case) blast
  qed
  show ?thesis
  proof (intro conjI allI impI)
    show "?tok = jwt_encode e ?claims (SECRET_KEY e) ALGORITHM" by (rule tok)
    show "jwt_decode e ?tok (SECRET_KEY e) [ALGORITHM] t'
            = Inr [(''sub'', VStr uid), (''exp'', VInt (t + 7 * 86400))]" by (rule dec)
    show "get_current_user_id e (Some (''Bearer '' @ ?tok)) t' = Inr (VStr uid)" by (rule id)
    fix i u
    assume "valid_oid i \<and> uid = str_ObjectId i \<and> map_of (db_user d) i = Some u"
    then show "\<exists>cu. get_current_user e d (Some (''Bearer '' @ ?tok)) t' = Inr cu \<and>
                  dict_get cu ''id'' = VStr uid" by (rule usr)
  qed
qed

theorem issue_verify_roundtrip_witness:
  "jose_roundtrip ex_env
     [(''sub'', VStr ''65a1b2c3d4e5f60718293a4b''), (''exp'', VDatetime (100 + 7 * 86400))] \<and>
   (100::int) \<le> 100 + 7 * 86400 \<and>
   get_current_user_id ex_env
       (Some (''Bearer '' @ create_access_token ex_env
                 [(''sub'', VStr ''65a1b2c3d4e5f60718293a4b'')] None 100)) 100
     = Inr (VStr ''65a1b2c3d4e5f60718293a4b'') \<and>
   valid_oid ex_uid \<and> ''65a1b2c3d4e5f60718293a4b'' = str_ObjectId ex_uid \<and>
   map_of (db_user ex_db1) ex_uid = Some ex_user_free \<and>
   (\<exists>cu. get_current_user ex_env ex_db1
            (Some (''Bearer '' @ create_access_token ex_env
                      [(''sub'', VStr ''65a1b2c3d4e5f60718293a4b'')] None 100)) 100 = Inr cu \<and>
          dict_get cu ''id'' = VStr ''65a1b2c3d4e5f60718293a4b'')"
proof -
  have le: "(100::int) \<le> 100 + 7 * 86400" by simp
  have s: "''65a1b2c3d4e5f60718293a4b'' = str_ObjectId ex_uid" by (simp add: ex_uid_def)
  have u: "map_of (db_user ex_db1) ex_uid = Some ex_user_free" by (simp add: ex_db1_def)
  note rt = issue_verify_roundtrip [OF ex_roundtrip le, of ex_db1]
  have 1: "get_current_user_id ex_env
       (Some (''Bearer '' @ create_access_token ex_env
                 [(''sub'', VStr ''65a1b2c3d4e5f60718293a4b'')] None 100)) 100
     = Inr (VStr ''65a1b2c3d4e5f60718293a4b'')"
    using rt by blast
  have 2: "\<exists>cu. get_current_user ex_env ex_db1
            (Some (''Bearer '' @ create_access_token ex_env
                      [(''sub'', VStr ''65a1b2c3d4e5f60718293a4b'')] None 100)) 100 = Inr cu \<and>
          dict_get cu ''id'' = VStr ''65a1b2c3d4e5f60718293a4b''"
    using rt ex_uid_valid s u by blast
  show ?thesis by (intro conjI ex_roundtrip le 1 ex_uid_valid s u 2)
qed

subsection \<open>The subscription invariant\<close>

lemma set_alist_update:
  "x \<in> set (AList.update k v al) \<Longrightarrow> x = (k, v) \<or> x \<in> set al"
  by (induction al) (auto split: if_splits)














subsection \<open>Gating and the end of the plan\<close>

lemma map_of_set_plan_end:
  "map_of (map (\<lambda>iu. (fst iu, AList.update ''plan_ends_at'' (f (fst iu)) (snd iu))) us) i
     = map_option (AList.update ''plan_ends_at'' (f i)) (map_of us i)"
  by (induction us) auto

lemma subscribed_set_plan_end:
  "dict_get ((''_id'', VObjectId i) # AList.update ''plan_ends_at'' v u) ''subscribed''
     = dict_get ((''_id'', VObjectId i) # u) ''subscribed''"
  by (simp add: dict_get_def dict_get_default_def update_conv')

lemma list_wallpapers_auth_set_plan_end:
  "list_wallpapers_auth e
      (d\<lparr>db_user := map (\<lambda>iu. (fst iu, AList.update ''plan_ends_at'' (f (fst iu)) (snd iu)))
                         (db_user d)\<rparr>) a now
     = list_wallpapers_auth e d a now"
  by (auto simp: list_wallpapers_auth_def find_one_id map_of_set_plan_end Let_def
                 subscribed_set_plan_end
           split: prod.splits sum.splits option.splits)

lemma list_wallpapers_auth_found:
  assumes "jwt_decode e (snd (snd (partition_space a))) (SECRET_KEY e) [ALGORITHM] now = Inr payload"
    and "truthy (dict_get payload ''sub'')"
    and "ObjectId_new (dict_get payload ''sub'') = Inr i"
    and "map_of (db_user d) i = Some u"
  shows "list_wallpapers_auth e d a now = Inr (truthy (dict_get u ''subscribed''))"
  using assms
  by (cases "partition_space a")
     (simp add: list_wallpapers_auth_def find_one_id Let_def dict_get_def dict_get_default_def)

lemma ex_wid_new: "ObjectId_new (VStr ''65a1b2c3d4e5f60718293a4c'') = Inr ex_wid"
  by (simp add: ex_wid_def is_space_def is_hex_def lower_char_def)

lemma ex_login_header:
  "snd (snd (partition_space ''Bearer tok.login.2599000'')) = ''tok.login.2599000''"
  by (simp add: partition_bearer)

lemma ex_login_sub:
  "dict_get [(''sub'', VStr ''65a1b2c3d4e5f60718293a4b''), (''exp'', VInt 3203800)] ''sub''
     = VStr ''65a1b2c3d4e5f60718293a4b''"
  by (simp add: dict_get_def dict_get_default_def)

lemma ex_listing_pro:
  "list_wallpapers ex_env None 50 (Some ''Bearer tok.login.2599000'') 2600000 ex_db2
     = Inr \<lparr>items = [wallpaper_item ex_env True (as_doc (ex_wid, ex_wallpaper))],
            subscribed = True\<rparr>"
proof -
  have u: "map_of (db_user ex_db2) ex_uid = Some ex_user_pro" by (simp add: ex_db2_def)
  have t: "truthy (dict_get ex_user_pro ''subscribed'')"
    by (simp add: ex_user_pro_def dict_get_def dict_get_default_def)
  have "list_wallpapers_auth ex_env ex_db2 ''Bearer tok.login.2599000'' 2600000
          = Inr (truthy (dict_get ex_user_pro ''subscribed''))"
    using ex_decode_login ex_uid_new u
    by (intro list_wallpapers_auth_found
                [where payload = "[(''sub'', VStr ''65a1b2c3d4e5f60718293a4b''),
                                   (''exp'', VInt 3203800)]" and i = ex_uid])
       (simp_all add: ex_login_header ex_login_sub)
  then have a: "list_wallpapers_auth ex_env ex_db2 ''Bearer tok.login.2599000'' 2600000 = Inr True"
    using t by simp
  have w: "db_wallpaper ex_db2 = [(ex_wid, ex_wallpaper)]" by (simp add: ex_db2_def)
  show ?thesis
    unfolding list_wallpapers_def Let_def w
    using a by (simp add: matches_def sort_desc_def cursor_limit_def)
qed

lemma ex_download_pro:
  "fst (download_wallpaper ''65a1b2c3d4e5f60718293a4c'' ex_current_pro ex_db2)
     = Inr [(''url'', VStr ''https://img.example/forest.jpg'')]"
proof -
  have m: "map_of (db_wallpaper ex_db2) ex_wid = Some ex_wallpaper" by (simp add: ex_db2_def)
  have p: "truthy (dict_get ex_current_pro ''subscribed'')"
    by (simp add: ex_current_pro_def ex_user_pro_def dict_get_def dict_get_default_def)
  have c: "dict_get_default ex_wallpaper ''downloads'' (VInt 0) = VInt 7"
    by (simp add: ex_wallpaper_def dict_get_default_def)
  have i: "dict_get (as_doc (ex_wid, ex_wallpaper)) ''image_url''
             = VStr ''https://img.example/forest.jpg''"
    by (simp add: ex_wallpaper_def dict_get_def dict_get_default_def)
  show ?thesis
    using ex_wid_new m p op_inc_downloads [OF c] i
    by (simp add: download_wallpaper_def find_one_id update_one_id)
qed

text \<open>
  C2, as the code has it. Listing and download are gated by the stored \<^verbatim>\<open>subscribed\<close>
  flag alone; \<^verbatim>\<open>plan_ends_at\<close> is never read. Replacing \<^verbatim>\<open>plan_ends_at\<close> in the
  current user's record changes no download outcome, and replacing it in every stored user
  changes no listing. A download of an existing wallpaper is refused with 402 exactly when
  the current user's flag is not truthy; a listing for a token that resolves to a stored
  user reports that user's flag as \<^verbatim>\<open>subscribed\<close> and watermarks the items exactly when
  the flag is not truthy.
\<close>

theorem gating_by_stored_flag:
  "download_wallpaper wid (AList.update ''plan_ends_at'' v current_user) d
     = download_wallpaper wid current_user d \<and>
   list_wallpapers e cat limit authorization now
       (d\<lparr>db_user := map (\<lambda>iu. (fst iu, AList.update ''plan_ends_at'' (f (fst iu)) (snd iu)))
                          (db_user d)\<rparr>)
     = list_wallpapers e cat limit authorization now d \<and>
   (\<forall>j w. ObjectId_new (VStr wid) = Inr j \<and> map_of (db_wallpaper d) j = Some w \<longrightarrow>
      (fst (download_wallpaper wid current_user d)
         = Inl (HTTPException 402 ''Subscription required for full-resolution download'')
       \<longleftrightarrow> \<not> truthy (dict_get current_user ''subscribed''))) \<and>
   (\<forall>a payload i u r.
      authorization = Some a \<and> a \<noteq> [] \<and>
      jwt_decode e (snd (snd (partition_space a))) (SECRET_KEY e) [ALGORITHM] now = Inr payload \<and>
      truthy (dict_get payload ''sub'') \<and>
      ObjectId_new (dict_get payload ''sub'') = Inr i \<and>
      map_of (db_user d) i = Some u \<and>
      list_wallpapers e cat limit authorization now d = Inr r \<longrightarrow>
      subscribed r = truthy (dict_get u ''subscribed'') \<and>
      (\<forall>item \<in> set (items r).
         dict_get item ''watermarked'' = VBool (\<not> truthy (dict_get u ''subscribed''))))"
proof (intro conjI allI impI)
  have s: "dict_get (AList.update ''plan_ends_at'' v current_user) ''subscribed''
             = dict_get current_user ''subscribed''"
    by (simp add: dict_get_def dict_get_default_def update_conv')
  show "download_wallpaper wid (AList.update ''plan_ends_at'' v current_user) d
          = download_wallpaper wid current_user d"
    unfolding download_wallpaper_def s by (rule refl)
next
  show "list_wallpapers e cat limit authorization now
       (d\<lparr>db_user := map (\<lambda>iu. (fst iu, AList.update ''plan_ends_at'' (f (fst iu)) (snd iu)))
                          (db_user d)\<rparr>)
     = list_wallpapers e cat limit authorization now d"
    by (cases authorization)
       (simp_all add: list_wallpapers_def list_wallpapers_auth_set_plan_end [where f = f])
next
  fix j w
  assume a: "ObjectId_new (VStr wid) = Inr j \<and> map_of (db_wallpaper d) j = Some w"
  show "fst (download_wallpaper wid current_user d)
          = Inl (HTTPException 402 ''Subscription required for full-resolution download'')
        \<longleftrightarrow> \<not> truthy (dict_get current_user ''subscribed'')"
    using a
    by (auto simp: download_wallpaper_def find_one_id update_one_id op_inc_def
             split: sum.splits option.splits val.splits)
next
  fix a payload i u r
  assume h: "authorization = Some a \<and> a \<noteq> [] \<and>
      jwt_decode e (snd (snd (partition_space a))) (SECRET_KEY e) [ALGORITHM] now = Inr payload \<and>
      truthy (dict_get payload ''sub'') \<and>
      ObjectId_new (dict_get payload ''sub'') = Inr i \<and>
      map_of (db_user d) i = Some u \<and>
      list_wallpapers e cat limit authorization now d = Inr r"
  define S where "S = truthy (dict_get u ''subscribed'')"
  define ws where "ws = cursor_limit limit (sort_desc (filter (matches
      (case cat of None \<Rightarrow> [] | Some c \<Rightarrow> if c = [] then [] else [(''category'', VStr c)]))
      (db_wallpaper d)))"
  have au: "list_wallpapers_auth e d a now = Inr S"
    unfolding S_def using h by (intro list_wallpapers_auth_found) blast+
  have "list_wallpapers e cat limit authorization now d
          = Inr \<lparr>items = map (\<lambda>w. wallpaper_item e S (as_doc w)) ws, subscribed = S\<rparr>"
    using h au unfolding list_wallpapers_def Let_def ws_def by simp
  with h have rr: "r = \<lparr>items = map (\<lambda>w. wallpaper_item e S (as_doc w)) ws, subscribed = S\<rparr>"
    by simp
  show "subscribed r = truthy (dict_get u ''subscribed'')"
    using rr by (simp add: S_def)
  show "\<forall>item \<in> set (items r).
         dict_get item ''watermarked'' = VBool (\<not> truthy (dict_get u ''subscribed''))"
    using rr by (auto simp: S_def wallpaper_item_def dict_get_def dict_get_default_def)
qed

theorem gating_by_stored_flag_witness:
  "ObjectId_new (VStr ''65a1b2c3d4e5f60718293a4c'') = Inr ex_wid \<and>
   map_of (db_wallpaper ex_db2) ex_wid = Some ex_wallpaper \<and>
   truthy (dict_get ex_current_pro ''subscribed'') \<and>
   fst (download_wallpaper ''65a1b2c3d4e5f60718293a4c'' ex_current_pro ex_db2)
     \<noteq> Inl (HTTPException 402 ''Subscription required for full-resolution download'') \<and>
   \<not> truthy (dict_get ex_current_free ''subscribed'') \<and>
   fst (download_wallpaper ''65a1b2c3d4e5f60718293a4c'' ex_current_free ex_db2)
     = Inl (HTTPException 402 ''Subscription required for full-resolution download'') \<and>
   jwt_decode ex_env (snd (snd (partition_space ''Bearer tok.login.2599000'')))
       (SECRET_KEY ex_env) [ALGORITHM] 2600000
     = Inr [(''sub'', VStr ''65a1b2c3d4e5f60718293a4b''), (''exp'', VInt 3203800)] \<and>
   map_of (db_user ex_db2) ex_uid = Some ex_user_pro \<and>
   list_wallpapers ex_env None 50 (Some ''Bearer tok.login.2599000'') 2600000 ex_db2
     = Inr \<lparr>items = [wallpaper_item ex_env True (as_doc (ex_wid, ex_wallpaper))],
            subscribed = True\<rparr> \<and>
   subscribed \<lparr>items = [wallpaper_item ex_env True (as_doc (ex_wid, ex_wallpaper))],
               subscribed = True\<rparr> = truthy (dict_get ex_user_pro ''subscribed'')"
proof -
  let ?r = "\<lparr>items = [wallpaper_item ex_env True (as_doc (ex_wid, ex_wallpaper))],
             subscribed = True\<rparr>"
  let ?payload = "[(''sub'', VStr ''65a1b2c3d4e5f60718293a4b''), (''exp'', VInt 3203800)]"
  have m: "map_of (db_wallpaper ex_db2) ex_wid = Some ex_wallpaper" by (simp add: ex_db2_def)
  have p: "truthy (dict_get ex_current_pro ''subscribed'')"
    by (simp add: ex_current_pro_def ex_user_pro_def dict_get_def dict_get_default_def)
  have f: "\<not> truthy (dict_get ex_current_free ''subscribed'')"
    by (simp add: ex_current_free_def ex_user_free_def dict_get_def dict_get_default_def)
  have u: "map_of (db_user ex_db2) ex_uid = Some ex_user_pro" by (simp add: ex_db2_def)
  have dec: "jwt_decode ex_env (snd (snd (partition_space ''Bearer tok.login.2599000'')))
       (SECRET_KEY ex_env) [ALGORITHM] 2600000 = Inr ?payload"
    using ex_decode_login by (simp add: ex_login_header)
  have ts: "truthy (dict_get ?payload ''sub'')" by (simp add: ex_login_sub)
  have os: "ObjectId_new (dict_get ?payload ''sub'') = Inr ex_uid"
    using ex_uid_new by (simp add: ex_login_sub)
  note g1 = gating_by_stored_flag
              [of "''65a1b2c3d4e5f60718293a4c''" VNone ex_current_pro ex_db2 ex_env None 50
                  "Some ''Bearer tok.login.2599000''" 2600000 "\<lambda>i. VNone"]
  note g2 = gating_by_stored_flag
              [of "''65a1b2c3d4e5f60718293a4c''" VNone ex_current_free ex_db2 ex_env None 50
                  "Some ''Bearer tok.login.2599000''" 2600000 "\<lambda>i. VNone"]
  have 1: "fst (download_wallpaper ''65a1b2c3d4e5f60718293a4c'' ex_current_pro ex_db2)
     \<noteq> Inl (HTTPException 402 ''Subscription required for full-resolution download'')"
    using g1 ex_wid_new m p by blast
  have 2: "fst (download_wallpaper ''65a1b2c3d4e5f60718293a4c'' ex_current_free ex_db2)
     = Inl (HTTPException 402 ''Subscription required for full-resolution download'')"
    using g2 ex_wid_new m f by blast
  have ne: "''Bearer tok.login.2599000'' \<noteq> []" by simp
  have 3: "subscribed ?r = truthy (dict_get ex_user_pro ''subscribed'')"
    using g1 dec ts os u ex_listing_pro ne by blast
  show ?thesis by (intro conjI ex_wid_new m p 1 f 2 dec u ex_listing_pro 3)
qed

text \<open>
  The claim as stated wants a user whose plan has ended treated as free. The user below has
  \<^verbatim>\<open>plan_ends_at\<close> = 2592200 and the stored flag true; at time 2600000 the listing is not
  watermarked and the download is granted.
\<close>

theorem expired_plan_counterexample:
  "map_of (db_user ex_db2) ex_uid = Some ex_user_pro \<and>
   dict_get ex_user_pro ''plan_ends_at'' = VDatetime 2592200 \<and>
   (2592200::int) < 2600000 \<and>
   get_current_user ex_env ex_db2 (Some ''Bearer tok.login.2599000'') 2600000
     = Inr ex_current_pro \<and>
   list_wallpapers ex_env None 50 (Some ''Bearer tok.login.2599000'') 2600000 ex_db2
     = Inr \<lparr>items = [wallpaper_item ex_env True (as_doc (ex_wid, ex_wallpaper))],
            subscribed = True\<rparr> \<and>
   dict_get (wallpaper_item ex_env True (as_doc (ex_wid, ex_wallpaper))) ''watermarked''
     = VBool False \<and>
   fst (download_wallpaper ''65a1b2c3d4e5f60718293a4c'' ex_current_pro ex_db2)
     = Inr [(''url'', VStr ''https://img.example/forest.jpg'')]"
proof -
  have u: "map_of (db_user ex_db2) ex_uid = Some ex_user_pro" by (simp add: ex_db2_def)
  have e: "dict_get ex_user_pro ''plan_ends_at'' = VDatetime 2592200"
    by (simp add: ex_user_pro_def dict_get_def dict_get_default_def)
  have l: "(2592200::int) < 2600000" by simp
  have w: "dict_get (wallpaper_item ex_env True (as_doc (ex_wid, ex_wallpaper))) ''watermarked''
             = VBool False"
    by (simp add: wallpaper_item_def dict_get_def dict_get_default_def)
  show ?thesis by (intro conjI u e l ex_current_user_pro ex_listing_pro w ex_download_pro)
qed

subsection \<open>Request text that is not an ObjectId\<close>

text \<open>
  Where an exception other than the 401 can leave \<open>get_current_user\<close>: the library raised
  something that is not a \<^verbatim>\<open>JWTError\<close>, or the token was accepted and
  \<^verbatim>\<open>ObjectId(user_id)\<close>, which stands after the \<^verbatim>\<open>try\<close> block, rejected its subject.
\<close>

lemma get_current_user_id_Inl:
  assumes "get_current_user_id e authorization now = Inl x"
  shows "(\<exists>m. x = HTTPException 401 m) \<or>
         (\<exists>a. authorization = Some a \<and> \<not> is_JWTError x \<and>
              jwt_decode e (snd (snd (partition_space a))) (SECRET_KEY e) [ALGORITHM] now = Inl x)"
  using assms
  by (auto simp: get_current_user_id_def split: option.splits if_splits prod.splits sum.splits
           val.splits)

lemma load_user_Inl:
  assumes "load_user e d uid = Inl x"
  shows "x = HTTPException 401 ''User not found'' \<or> ObjectId_new uid = Inl x"
  using assms
  by (auto simp: load_user_def find_one_def dict_getitem_def
           split: sum.splits option.splits list.splits)

lemma get_current_user_raises:
  assumes "get_current_user e d authorization now = Inl x"
  shows "(\<exists>m. x = HTTPException 401 m) \<or>
         (\<exists>a. authorization = Some a \<and> \<not> is_JWTError x \<and>
              jwt_decode e (snd (snd (partition_space a))) (SECRET_KEY e) [ALGORITHM] now = Inl x) \<or>
         (\<exists>a payload. authorization = Some a \<and>
              jwt_decode e (snd (snd (partition_space a))) (SECRET_KEY e) [ALGORITHM] now
                = Inr payload \<and>
              ObjectId_new (dict_get payload ''sub'') = Inl x)"
proof (cases "get_current_user_id e authorization now")
  case (Inl y)
  with assms have "y = x" by (simp add: get_current_user_def)
  with Inl show ?thesis using get_current_user_id_Inl [of e authorization now x] by blast
next
  case (Inr uid)
  with assms have l: "load_user e d uid = Inl x" by (simp add: get_current_user_def)
  obtain a payload where "authorization = Some a"
    and "jwt_decode e (snd (snd (partition_space a))) (SECRET_KEY e) [ALGORITHM] now = Inr payload"
    and "dict_get payload ''sub'' = uid"
    using get_current_user_id_Inr [OF Inr] by blast
  then show ?thesis using load_user_Inl [OF l] by blast
qed

lemma get_current_user_bad_subject:
  assumes "a \<noteq> []" and "lower (fst (partition_space a)) = ''bearer''"
    and "snd (snd (partition_space a)) \<noteq> []"
    and "jwt_decode e (snd (snd (partition_space a))) (SECRET_KEY e) [ALGORITHM] now = Inr payload"
    and "dict_get payload ''sub'' = VStr s"
    and "ObjectId_new (VStr s) = Inl x"
  shows "get_current_user e d (Some a) now = Inl x"
proof -
  have "get_current_user_id e (Some a) now = Inr (VStr s)"
    using assms(1-5) by (cases "partition_space a") (simp add: get_current_user_id_def)
  moreover have "load_user e d (VStr s) = Inl x"
    using assms(6) by (simp add: load_user_def)
  ultimately show ?thesis by (simp add: get_current_user_def)
qed

lemma ex_partition_badsub:
  "partition_space ''Bearer tok.badsub'' = (''Bearer'', '' '', ''tok.badsub'')"
  by (simp add: partition_space_def)

lemma ex_decode_badsub:
  "jwt_decode ex_env ''tok.badsub'' (SECRET_KEY ex_env) [ALGORITHM] 1000
     = Inr [(''sub'', VStr ''abc''), (''exp'', VInt 3203800)]"
  by (simp add: ex_env_simps book_decode_def ex_book_def jose_validate_def
                jose_validate_exp_def jose_validate_sub_def)

lemma ex_abc_invalid: "ObjectId_new (VStr ''abc'') = Inl InvalidId"
  by (simp add: is_space_def is_hex_def)

lemma ex_current_user_badsub:
  "get_current_user ex_env d (Some ''Bearer tok.badsub'') 1000 = Inl InvalidId"
proof -
  have s: "dict_get [(''sub'', VStr ''abc''), (''exp'', VInt 3203800)] ''sub'' = VStr ''abc''"
    by (simp add: dict_get_def dict_get_default_def)
  show ?thesis
    by (rule get_current_user_bad_subject [where s = "''abc''" and
              payload = "[(''sub'', VStr ''abc''), (''exp'', VInt 3203800)]"])
       (simp_all add: ex_partition_badsub ex_lower ex_decode_badsub s ex_abc_invalid)
qed

lemma ex_listing_badsub:
  "list_wallpapers ex_env None 50 (Some ''Bearer tok.badsub'') 1000 ex_db2
     = Inr \<lparr>items = [wallpaper_item ex_env False (as_doc (ex_wid, ex_wallpaper))],
            subscribed = False\<rparr>"
proof -
  have a: "list_wallpapers_auth ex_env ex_db2 ''Bearer tok.badsub'' 1000 = Inl InvalidId"
    using ex_decode_badsub ex_abc_invalid
    by (simp add: list_wallpapers_auth_def ex_partition_badsub dict_get_def dict_get_default_def)
  have w: "db_wallpaper ex_db2 = [(ex_wid, ex_wallpaper)]" by (simp add: ex_db2_def)
  show ?thesis
    unfolding list_wallpapers_def Let_def w
    using a by (simp add: matches_def sort_desc_def cursor_limit_def)
qed

lemma ex_current_user_deleted:
  "get_current_user ex_env ex_db0 (Some ''Bearer tok.login.2599000'') 2600000
     = Inl (HTTPException 401 ''User not found'')"
proof -
  have id: "get_current_user_id ex_env (Some ''Bearer tok.login.2599000'') 2600000
              = Inr (VStr ''65a1b2c3d4e5f60718293a4b'')"
    using ex_decode_login
    by (simp add: get_current_user_id_def partition_bearer lower_Bearer dict_get_def
                  dict_get_default_def)
  have "load_user ex_env ex_db0 (VStr ''65a1b2c3d4e5f60718293a4b'')
          = Inl (HTTPException 401 ''User not found'')"
    using ex_uid_new by (simp add: load_user_def find_one_def ex_db0_def)
  then show ?thesis using id by (simp add: get_current_user_def)
qed

text \<open>
  C5. The claim: whatever the token, verification on an authenticated endpoint answers
  with the 401 error and never raises an unhandled exception. \<open>get_current_user\<close> does
  turn every \<^verbatim>\<open>JWTError\<close> and a missing subject into the 401, and a well-formed subject
  that names no user into the 401 \<^verbatim>\<open>User not found\<close>. A token signed with the server's
  key (the default key of the source when \<^verbatim>\<open>JWT_SECRET\<close> is not set) whose subject is
  \<^verbatim>\<open>abc\<close> is accepted by the library, and the request ends in the \<^verbatim>\<open>InvalidId\<close> of
  \<^verbatim>\<open>ObjectId(user_id)\<close>, which nothing catches. \<open>list_wallpapers\<close> runs the same call
  inside its \<^verbatim>\<open>try\<close> and answers the same header with the anonymous listing.
\<close>

theorem get_current_user_invalid_subject:
  "jwt_decode ex_env ''tok.badsub'' (SECRET_KEY ex_env) [ALGORITHM] 1000
     = Inr [(''sub'', VStr ''abc''), (''exp'', VInt 3203800)] \<and>
   get_current_user ex_env ex_db2 (Some ''Bearer tok.badsub'') 1000 = Inl InvalidId \<and>
   get_current_user ex_env ex_db0 (Some ''Bearer tok.login.2599000'') 2600000
     = Inl (HTTPException 401 ''User not found'') \<and>
   list_wallpapers ex_env None 50 (Some ''Bearer tok.badsub'') 1000 ex_db2
     = Inr \<lparr>items = [wallpaper_item ex_env False (as_doc (ex_wid, ex_wallpaper))],
            subscribed = False\<rparr>"
  by (intro conjI ex_decode_badsub ex_current_user_badsub ex_current_user_deleted
            ex_listing_badsub)

lemma ex_download_absent:
  "download_wallpaper ''65a1b2c3d4e5f60718293a4b'' ex_current_pro ex_db2
     = (Inl (HTTPException 404 ''Wallpaper not found''), ex_db2)"
  using ex_uid_new
  by (simp add: download_wallpaper_def find_one_id ex_db2_def ex_uid_def ex_wid_def)

text \<open>
  C4. The claim: a download request for a wallpaper that does not exist gets the 404
  error. For the subscribed user of the example, no wallpaper has the id \<^verbatim>\<open>abc\<close>, and the
  request ends in the \<^verbatim>\<open>InvalidId\<close> of \<^verbatim>\<open>ObjectId(wallpaper_id)\<close>, which stands before
  the lookup and its 404 and which nothing catches; an id of 24 hex digits that no wallpaper
  has gets the 404, with the same user and store.
\<close>

theorem download_malformed_id:
  "get_current_user ex_env ex_db2 (Some ''Bearer tok.login.2599000'') 2600000
     = Inr ex_current_pro \<and>
   map_of (db_wallpaper ex_db2) (OID ''abc'') = None \<and>
   download_wallpaper ''abc'' ex_current_pro ex_db2 = (Inl InvalidId, ex_db2) \<and>
   map_of (db_wallpaper ex_db2) (OID ''65a1b2c3d4e5f60718293a4b'') = None \<and>
   download_wallpaper ''65a1b2c3d4e5f60718293a4b'' ex_current_pro ex_db2
     = (Inl (HTTPException 404 ''Wallpaper not found''), ex_db2)"
proof -
  have 1: "map_of (db_wallpaper ex_db2) (OID ''abc'') = None"
    by (simp add: ex_db2_def ex_wid_def)
  have 2: "download_wallpaper ''abc'' ex_current_pro ex_db2 = (Inl InvalidId, ex_db2)"
    by (rule download_wallpaper_malformed [OF ex_abc_invalid])
  have 3: "map_of (db_wallpaper ex_db2) (OID ''65a1b2c3d4e5f60718293a4b'') = None"
    by (simp add: ex_db2_def ex_wid_def)
  show ?thesis by (intro conjI ex_current_user_pro 1 2 3 ex_download_absent)
qed

end
